theory Spec2Isabelle
  imports Complex_Main "HOL-Library.Log_Nat" "HOL-Library.AList"
begin

section \<open>Python values used by main.py\<close>

subsection \<open>Exceptions\<close>

text \<open>
  Every exception main.py can raise on the modelled inputs is a value of \<open>error\<close>; a
  fallible computation returns \<open>error + 'a\<close> with \<open>Inl\<close> for the raised exception.
  \<open>RequestException\<close> stands for requests.exceptions.RequestException and its subclasses,
  \<open>ValueError\<close> for the JSON decoding error of \<open>response.json()\<close>.
\<close>

datatype error =
    OverflowError | ZeroDivisionError | KeyError | TypeError | AttributeError
  | UnboundLocalError | ValueError | OSError | RequestException

definition bind :: "error + 'a \<Rightarrow> ('a \<Rightarrow> error + 'b) \<Rightarrow> error + 'b" where
  "bind m f = (case m of Inl e \<Rightarrow> Inl e | Inr x \<Rightarrow> f x)"

subsection \<open>Floats: IEEE 754 binary64 with round-half-even\<close>

text \<open>
  A Python float is a binary64 value. A finite non-zero value, and positive zero, is
  \<open>Finite q\<close> with \<open>q\<close> the rational it denotes exactly; negative zero, the infinities and
  NaN are constructors of their own. Every arithmetic result is the exact rational
  result rounded to the nearest binary64 value, ties to the even significand.
\<close>

datatype pyfloat = Finite rat | NegZero | PInf | NInf | NaN

definition round_half_even :: "rat \<Rightarrow> int" where
  "round_half_even x =
     (let f = \<lfloor>x\<rfloor>; d = x - of_int f
      in if d < 1 / 2 then f else if 1 / 2 < d then f + 1 else if even f then f else f + 1)"

text \<open>\<open>ilog2 x\<close> is the integer \<open>k\<close> with \<open>2^k \<le> x < 2^(k+1)\<close>, for \<open>x > 0\<close>.\<close>

definition ilog2 :: "rat \<Rightarrow> int" where
  "ilog2 x =
     (case quotient_of x of (a, b) \<Rightarrow>
        let d = bitlen a - bitlen b
        in if (if 0 \<le> d then b * 2 ^ nat d \<le> a else b \<le> a * 2 ^ nat (- d)) then d else d - 1)"

text \<open>
  The exponent of the unit in the last place of the binary64 values around \<open>x > 0\<close>:
  53 significant bits for a normal value, \<open>2^-1074\<close> steps for a subnormal one.
\<close>

definition ulp_exp :: "rat \<Rightarrow> int" where
  "ulp_exp x = max (ilog2 x - 52) (- 1074)"

text \<open>The nearest binary64 magnitude to \<open>x > 0\<close>; \<open>2^1024\<close> stands for overflow.\<close>

definition round_mag :: "rat \<Rightarrow> rat" where
  "round_mag x = of_int (round_half_even (x / 2 powi ulp_exp x)) * 2 powi ulp_exp x"

definition signed_zero :: "bool \<Rightarrow> pyfloat" where
  "signed_zero neg = (if neg then NegZero else Finite 0)"

definition signed_inf :: "bool \<Rightarrow> pyfloat" where
  "signed_inf neg = (if neg then NInf else PInf)"

text \<open>Rounding an exact non-zero result; an exact zero keeps the sign its operation gives it.\<close>

definition ieee_round :: "rat \<Rightarrow> pyfloat" where
  "ieee_round r =
     (if r = 0 then Finite 0
      else let m = round_mag \<bar>r\<bar>
           in if 2 ^ 1024 \<le> m then signed_inf (r < 0)
              else if m = 0 then signed_zero (r < 0)
              else Finite (if r < 0 then - m else m))"

fun is_negative :: "pyfloat \<Rightarrow> bool" where
  "is_negative (Finite q) = (q < 0)"
| "is_negative NegZero = True"
| "is_negative PInf = False"
| "is_negative NInf = True"
| "is_negative NaN = False"

fun is_zero :: "pyfloat \<Rightarrow> bool" where
  "is_zero (Finite q) = (q = 0)"
| "is_zero NegZero = True"
| "is_zero _ = False"

fun is_inf :: "pyfloat \<Rightarrow> bool" where
  "is_inf PInf = True"
| "is_inf NInf = True"
| "is_inf _ = False"

fun rat_of_float :: "pyfloat \<Rightarrow> rat" where
  "rat_of_float (Finite q) = q"
| "rat_of_float _ = 0"

text \<open>\<open>float(n)\<close> for a Python int: correctly rounded, OverflowError beyond the range.\<close>

definition float_of_int :: "int \<Rightarrow> error + pyfloat" where
  "float_of_int n =
     (case ieee_round (of_int n) of
        PInf \<Rightarrow> Inl OverflowError
      | NInf \<Rightarrow> Inl OverflowError
      | f \<Rightarrow> Inr f)"

definition ieee_div :: "pyfloat \<Rightarrow> pyfloat \<Rightarrow> pyfloat" where
  "ieee_div x y =
     (let neg = (is_negative x \<noteq> is_negative y)
      in if x = NaN \<or> y = NaN then NaN
         else if is_inf x then (if is_inf y then NaN else signed_inf neg)
         else if is_inf y then signed_zero neg
         else if is_zero y then (if is_zero x then NaN else signed_inf neg)
         else if is_zero x then signed_zero neg
         else ieee_round (rat_of_float x / rat_of_float y))"

text \<open>\<open>x / y\<close> on floats: Python raises ZeroDivisionError on a zero divisor.\<close>

definition float_truediv :: "pyfloat \<Rightarrow> pyfloat \<Rightarrow> error + pyfloat" where
  "float_truediv x y = (if is_zero y then Inl ZeroDivisionError else Inr (ieee_div x y))"

text \<open>\<open>x * y\<close> on floats: never raises; overflow gives an infinity.\<close>

definition float_mul :: "pyfloat \<Rightarrow> pyfloat \<Rightarrow> pyfloat" where
  "float_mul x y =
     (let neg = (is_negative x \<noteq> is_negative y)
      in if x = NaN \<or> y = NaN then NaN
         else if is_inf x \<or> is_inf y then (if is_zero x \<or> is_zero y then NaN else signed_inf neg)
         else if is_zero x \<or> is_zero y then signed_zero neg
         else ieee_round (rat_of_float x * rat_of_float y))"

text \<open>
  \<open>round(x, 1)\<close>: the exact value of \<open>x\<close> is rounded half-even to one decimal and that
  decimal is read back as a float; the sign of \<open>x\<close> survives a result of zero, and
  infinities and NaN round to themselves.
\<close>

definition py_round1 :: "pyfloat \<Rightarrow> pyfloat" where
  "py_round1 x =
     (case x of
        Finite q \<Rightarrow>
          (let k = round_half_even (q * 10)
           in if k = 0 then signed_zero (q < 0) else ieee_round (of_int k / 10))
      | _ \<Rightarrow> x)"


definition float_ge_rat :: "pyfloat \<Rightarrow> rat \<Rightarrow> bool" where
  "float_ge_rat x r =
     (case x of Finite q \<Rightarrow> r \<le> q | NegZero \<Rightarrow> r \<le> 0 | PInf \<Rightarrow> True | NInf \<Rightarrow> False | NaN \<Rightarrow> False)"


subsection \<open>Decimal strings and the repr of a float\<close>

text \<open>\<open>str(n)\<close> for a Python int.\<close>

fun dec_digits :: "nat \<Rightarrow> string" where
  "dec_digits n =
     (if n < 10 then [''0123456789'' ! n]
      else dec_digits (n div 10) @ [''0123456789'' ! (n mod 10)])"

declare dec_digits.simps [simp del]

definition py_str_int :: "int \<Rightarrow> string" where
  "py_str_int n = (if n < 0 then ''-'' @ dec_digits (nat (- n)) else dec_digits (nat n))"

text \<open>\<open>ilog10 x\<close> is the integer \<open>p\<close> with \<open>10^p \<le> x < 10^(p+1)\<close>, for \<open>x > 0\<close>.\<close>

definition ilog10 :: "rat \<Rightarrow> int" where
  "ilog10 x =
     (if 1 \<le> x then int (length (dec_digits (nat \<lfloor>x\<rfloor>))) - 1
      else - int (length (dec_digits (nat (\<lceil>1 / x\<rceil> - 1)))))"

text \<open>
  \<open>repr\<close> of a float is the shortest decimal that reads back as the same float, the
  nearest to it when several of that length do. \<open>repr_candidates x n\<close> are the decimals
  \<open>c * 10^e\<close> with \<open>n\<close> digits next to \<open>x > 0\<close> that read back as \<open>x\<close>.
\<close>

definition repr_candidates :: "rat \<Rightarrow> nat \<Rightarrow> (int \<times> int) list" where
  "repr_candidates x n =
     (let e = ilog10 x - int n + 1; lo = \<lfloor>x / 10 powi e\<rfloor>
      in filter (\<lambda>(c, e). ieee_round (of_int c * 10 powi e) = Finite x) [(lo, e), (lo + 1, e)])"

fun nearest_candidate :: "rat \<Rightarrow> (int \<times> int) list \<Rightarrow> int \<times> int" where
  "nearest_candidate x [] = (0, 0)"
| "nearest_candidate x [d] = d"
| "nearest_candidate x ((c, e) # (c', e') # _) =
     (if \<bar>x - of_int c * 10 powi e\<bar> \<le> \<bar>of_int c' * 10 powi e' - x\<bar> then (c, e) else (c', e'))"

text \<open>The search tries 1, 2, ... digits; 17 digits always read back.\<close>

fun shortest_decimal :: "rat \<Rightarrow> nat \<Rightarrow> nat \<Rightarrow> int \<times> int" where
  "shortest_decimal x n 0 = (\<lfloor>x / 10 powi (ilog10 x - int n + 1)\<rfloor>, ilog10 x - int n + 1)"
| "shortest_decimal x n (Suc fuel) =
     (case repr_candidates x n of
        [] \<Rightarrow> shortest_decimal x (Suc n) fuel
      | cs \<Rightarrow> nearest_candidate x cs)"

fun strip_zeros :: "nat \<Rightarrow> int \<Rightarrow> nat \<times> int" where
  "strip_zeros c e = (if c \<noteq> 0 \<and> c mod 10 = 0 then strip_zeros (c div 10) (e + 1) else (c, e))"

declare strip_zeros.simps [simp del]

text \<open>
  The format of \<open>repr\<close>: with digits \<open>ds\<close> and the decimal point after \<open>decpt\<close> of them,
  exponent notation when \<open>decpt \<le> -4\<close> or \<open>decpt > 16\<close>, else positional with at least
  one digit after the point.
\<close>

definition format_repr :: "string \<Rightarrow> int \<Rightarrow> string" where
  "format_repr ds decpt =
     (if decpt \<le> - 4 \<or> 16 < decpt then
        [hd ds] @ (if 1 < length ds then ''.'' @ tl ds else []) @ ''e''
          @ (if decpt - 1 < 0 then ''-'' else ''+'')
          @ (if \<bar>decpt - 1\<bar> < 10 then ''0'' else []) @ dec_digits (nat \<bar>decpt - 1\<bar>)
      else if decpt \<le> 0 then ''0.'' @ replicate (nat (- decpt)) CHR ''0'' @ ds
      else if int (length ds) \<le> decpt then
        ds @ replicate (nat decpt - length ds) CHR ''0'' @ ''.0''
      else take (nat decpt) ds @ ''.'' @ drop (nat decpt) ds)"

definition repr_pos :: "rat \<Rightarrow> string" where
  "repr_pos x =
     (case shortest_decimal x 1 17 of (c, e) \<Rightarrow>
        (case strip_zeros (nat c) e of (c', e') \<Rightarrow>
           format_repr (dec_digits c') (int (length (dec_digits c')) + e')))"

definition float_repr :: "pyfloat \<Rightarrow> string" where
  "float_repr x =
     (case x of
        NaN \<Rightarrow> ''nan''
      | PInf \<Rightarrow> ''inf''
      | NInf \<Rightarrow> ''-inf''
      | NegZero \<Rightarrow> ''-0.0''
      | Finite q \<Rightarrow>
          (if q = 0 then ''0.0'' else if q < 0 then ''-'' @ repr_pos (- q) else repr_pos q))"

subsection \<open>JSON values\<close>

text \<open>
  What \<open>response.json()\<close> returns and what goes out as a request body: the Python
  values None, bool, int, float and str, lists, and dicts in insertion order.
\<close>

datatype atom = PNone | PBool bool | PInt int | PFloat pyfloat | PStr string

datatype json = JAtom atom | JList "json list" | JDict "(string \<times> json) list"

abbreviation JStr :: "string \<Rightarrow> json" where
  "JStr s \<equiv> JAtom (PStr s)"

text \<open>\<open>str(v)\<close>, and so \<open>f"{v}"\<close>, for a value that is no container.\<close>

definition py_str :: "atom \<Rightarrow> string" where
  "py_str v =
     (case v of
        PNone \<Rightarrow> ''None''
      | PBool b \<Rightarrow> (if b then ''True'' else ''False'')
      | PInt n \<Rightarrow> py_str_int n
      | PFloat x \<Rightarrow> float_repr x
      | PStr s \<Rightarrow> s)"

text \<open>Truth value testing, as \<open>if v:\<close> does.\<close>

definition truthy :: "json \<Rightarrow> bool" where
  "truthy v =
     (case v of
        JAtom PNone \<Rightarrow> False
      | JAtom (PBool b) \<Rightarrow> b
      | JAtom (PInt n) \<Rightarrow> n \<noteq> 0
      | JAtom (PFloat x) \<Rightarrow> \<not> is_zero x
      | JAtom (PStr s) \<Rightarrow> s \<noteq> []
      | JList xs \<Rightarrow> xs \<noteq> []
      | JDict d \<Rightarrow> d \<noteq> [])"

text \<open>\<open>v[k]\<close> with a str key: only a dict can be subscripted by a str.\<close>

definition getitem :: "json \<Rightarrow> string \<Rightarrow> error + json" where
  "getitem v k =
     (case v of
        JDict d \<Rightarrow> (case map_of d k of None \<Rightarrow> Inl KeyError | Some x \<Rightarrow> Inr x)
      | _ \<Rightarrow> Inl TypeError)"

text \<open>\<open>v.get(k, default)\<close>: a method of dicts only.\<close>

definition get_default :: "json \<Rightarrow> string \<Rightarrow> json \<Rightarrow> error + json" where
  "get_default v k dflt =
     (case v of
        JDict d \<Rightarrow> Inr (case map_of d k of None \<Rightarrow> dflt | Some x \<Rightarrow> x)
      | _ \<Rightarrow> Inl AttributeError)"

fun is_substring :: "string \<Rightarrow> string \<Rightarrow> bool" where
  "is_substring k [] = (k = [])"
| "is_substring k (c # s) = (take (length k) (c # s) = k \<or> is_substring k s)"

text \<open>\<open>k in v\<close> for a str \<open>k\<close>: a key of a dict, an element of a list, a substring of a str.\<close>

definition contains :: "string \<Rightarrow> json \<Rightarrow> error + bool" where
  "contains k v =
     (case v of
        JDict d \<Rightarrow> Inr (map_of d k \<noteq> None)
      | JList xs \<Rightarrow> Inr (JStr k \<in> set xs)
      | JAtom (PStr s) \<Rightarrow> Inr (is_substring k s)
      | _ \<Rightarrow> Inl TypeError)"

text \<open>
  \<open>for x in v\<close>: the elements of a list, the keys of a dict, the characters of a str
  (each a str again); any other value is not iterable.
\<close>

definition iterate :: "json \<Rightarrow> error + json list" where
  "iterate v =
     (case v of
        JList xs \<Rightarrow> Inr xs
      | JDict d \<Rightarrow> Inr (map (\<lambda>(k, _). JStr k) d)
      | JAtom (PStr s) \<Rightarrow> Inr (map (\<lambda>c. JStr [c]) s)
      | _ \<Rightarrow> Inl TypeError)"

section \<open>The program main.py\<close>

subsection \<open>Configuration and tables\<close>

text \<open>
  The four settings read from the environment; \<open>os.environ.get\<close> gives None for a
  variable that is not set, and an f-string prints None as \<open>None\<close>.
\<close>

record config =
  STEAM_API_KEY :: "string option"
  STEAM_USER_ID :: "string option"
  NOTION_API_KEY :: "string option"
  NOTION_DATABASE_ID :: "string option"

definition fmt_setting :: "string option \<Rightarrow> string" where
  "fmt_setting s = (case s of None \<Rightarrow> ''None'' | Some v \<Rightarrow> v)"

text \<open>
  \<open>PROPERTY_MAPPING\<close> is only ever subscripted by one of its ten literal keys, so the keys
  are an enumeration and the dict a total function. The column names are the source's
  Chinese names, as their UTF-8 bytes.
\<close>

datatype logical_field =
    TITLE | PLAYTIME | LAST_PLAYED | STORE_URL | COMPLETION | TOTAL_ACHIEVEMENTS
  | ACHIEVED_ACHIEVEMENTS | REVIEW | INFO | TAGS

fun PROPERTY_MAPPING :: "logical_field \<Rightarrow> string" where
  "PROPERTY_MAPPING TITLE =
     [CHR 0xE6, CHR 0xB8, CHR 0xB8, CHR 0xE6, CHR 0x88, CHR 0x8F, CHR 0xE5, CHR 0x90, CHR 0x8D,
      CHR 0xE7, CHR 0xA7, CHR 0xB0]"
| "PROPERTY_MAPPING PLAYTIME =
     [CHR 0xE6, CHR 0xB8, CHR 0xB8, CHR 0xE7, CHR 0x8E, CHR 0xA9, CHR 0xE6, CHR 0x97, CHR 0xB6,
      CHR 0xE9, CHR 0x95, CHR 0xBF, CHR 0x20, CHR 0x28, CHR 0x68, CHR 0x29]"
| "PROPERTY_MAPPING LAST_PLAYED =
     [CHR 0xE4, CHR 0xB8, CHR 0x8A, CHR 0xE6, CHR 0xAC, CHR 0xA1, CHR 0xE6, CHR 0xB8, CHR 0xB8,
      CHR 0xE7, CHR 0x8E, CHR 0xA9, CHR 0xE6, CHR 0x97, CHR 0xB6, CHR 0xE9, CHR 0x97, CHR 0xB4]"
| "PROPERTY_MAPPING STORE_URL =
     [CHR 0xE5, CHR 0x95, CHR 0x86, CHR 0xE5, CHR 0xBA, CHR 0x97, CHR 0xE9, CHR 0x93, CHR 0xBE,
      CHR 0xE6, CHR 0x8E, CHR 0xA5]"
| "PROPERTY_MAPPING COMPLETION =
     [CHR 0xE5, CHR 0xAE, CHR 0x8C, CHR 0xE6, CHR 0x88, CHR 0x90, CHR 0xE5, CHR 0xBA, CHR 0xA6]"
| "PROPERTY_MAPPING TOTAL_ACHIEVEMENTS =
     [CHR 0xE6, CHR 0x80, CHR 0xBB, CHR 0xE6, CHR 0x88, CHR 0x90, CHR 0xE5, CHR 0xB0, CHR 0xB1,
      CHR 0xE6, CHR 0x95, CHR 0xB0]"
| "PROPERTY_MAPPING ACHIEVED_ACHIEVEMENTS =
     [CHR 0xE5, CHR 0xB7, CHR 0xB2, CHR 0xE5, CHR 0xAE, CHR 0x8C, CHR 0xE6, CHR 0x88, CHR 0x90,
      CHR 0xE6, CHR 0x88, CHR 0x90, CHR 0xE5, CHR 0xB0, CHR 0xB1, CHR 0xE6, CHR 0x95, CHR 0xB0]"
| "PROPERTY_MAPPING REVIEW =
     [CHR 0xE8, CHR 0xAF, CHR 0x84, CHR 0xE6, CHR 0xB5, CHR 0x8B]"
| "PROPERTY_MAPPING INFO =
     [CHR 0xE6, CHR 0xB8, CHR 0xB8, CHR 0xE6, CHR 0x88, CHR 0x8F, CHR 0xE7, CHR 0xAE, CHR 0x80,
      CHR 0xE4, CHR 0xBB, CHR 0x8B]"
| "PROPERTY_MAPPING TAGS =
     [CHR 0xE6, CHR 0xB8, CHR 0xB8, CHR 0xE6, CHR 0x88, CHR 0x8F, CHR 0xE6, CHR 0xA0, CHR 0x87,
      CHR 0xE7, CHR 0xAD, CHR 0xBE]"

text \<open>\<open>PROPERTY_TYPES\<close>, a dict keyed by column name, in the order of the source.\<close>

definition PROPERTY_TYPES :: "(string \<times> string) list" where
  "PROPERTY_TYPES =
     [(PROPERTY_MAPPING TITLE, ''title''),
      (PROPERTY_MAPPING PLAYTIME, ''number''),
      (PROPERTY_MAPPING LAST_PLAYED, ''date''),
      (PROPERTY_MAPPING STORE_URL, ''url''),
      (PROPERTY_MAPPING COMPLETION, ''multi_select''),
      (PROPERTY_MAPPING TOTAL_ACHIEVEMENTS, ''number''),
      (PROPERTY_MAPPING ACHIEVED_ACHIEVEMENTS, ''number''),
      (PROPERTY_MAPPING REVIEW, ''rich_text''),
      (PROPERTY_MAPPING INFO, ''rich_text''),
      (PROPERTY_MAPPING TAGS, ''multi_select'')]"

text \<open>\<open>PROPERTY_TYPES.get(k, "")\<close>.\<close>

definition property_type :: "string \<Rightarrow> string" where
  "property_type k = (case map_of PROPERTY_TYPES k of None \<Rightarrow> [] | Some t \<Rightarrow> t)"

definition MAX_RETRIES :: int where
  "MAX_RETRIES = 20"

definition RETRY_DELAY :: nat where
  "RETRY_DELAY = 2"

subsection \<open>Data\<close>

text \<open>
  A game as the Steam API lists it. \<open>rtime_last_played\<close> is read with a default
  (\<open>game.get("rtime_last_played", 0)\<close>), so it may be absent. \<open>img_icon_url\<close> may be absent
  too (the game of the end-to-end scenario of the specification has none); the code
  subscripts it, and \<open>game['img_icon_url']\<close> raises KeyError then.
\<close>

record game =
  appid :: int
  name :: string
  playtime_forever :: int
  rtime_last_played :: "int option"
  img_icon_url :: "string option"

text \<open>
  The achievements info is the dict \<open>get_achievements_count\<close> builds, with both keys
  always set; \<open>achievements_info.get("total", 0)\<close> is the field.
\<close>

record achievements_info =
  total :: int
  achieved :: int

text \<open>
  A tag of the store data is a dict or a value that is no container (a str as a rule);
  \<open>isinstance(tag, dict)\<close> tells them apart.
\<close>

datatype tag = TagDict "(string \<times> json) list" | TagAtom atom

text \<open>
  The store data is read with defaults only: \<open>steam_store_data.get("info", "")\<close> and
  \<open>steam_store_data.get('tag', [])\<close>.
\<close>

record steam_store_data =
  info :: "string option"
  tag :: "tag list option"

subsection \<open>The world: network, clock and logger\<close>

text \<open>
  The platform's time zone gives \<open>time.strftime("%Y-%m-%d", time.localtime(t))\<close>, which
  raises for a time stamp out of the platform's range, and
  \<open>time.mktime(time.strptime("2020-01-01 00:00:00", ...))\<close>, a float holding a whole
  number of seconds (comparing an int with it is exact).
\<close>

record platform =
  local_date :: "int \<Rightarrow> error + string"
  not_record_timestamp :: int

record request =
  http_method :: string
  url :: string
  headers :: "(string \<times> string) list"
  params :: "(string \<times> atom) list"
  json_data :: "json option"

text \<open>
  A response: \<open>http_error\<close> says that \<open>raise_for_status()\<close> raises, \<open>json_value\<close> is what
  \<open>json()\<close> returns, None when it raises ValueError.
\<close>

record response =
  http_error :: bool
  response_text :: string
  json_value :: "json option"

text \<open>A call of requests.get/post/patch raises a RequestException or returns a response.\<close>

datatype http_result = Raises | Returns response

text \<open>The network answers the \<open>n\<close>-th call of the run, given the request.\<close>

type_synonym network = "nat \<Rightarrow> request \<Rightarrow> http_result"

datatype level = LogInfo | LogWarning | LogError

text \<open>The log messages, one constructor for each message of the source, with its arguments.\<close>

datatype message =
    Request_failed_retrying string
  | Retries_exhausted string
  | Property_type_mismatch string json string
  | Property_missing string
  | Validation_finished
  | Validation_failed error
  | Querying_achievements string
  | Achievements_query_failed string
  | Achievements_json_failed string
  | No_achievement_info string
  | No_achievements string
  | Achievements_counted string
  | Not_recorded string
  | Adding_game string
  | Game_added string
  | Adding_failed error
  | Querying_game string
  | Query_finished
  | Query_failed error
  | Updating_game string
  | Game_updated string
  | Updating_failed error
  | Invalid_tag "(string \<times> json) list"

record world =
  calls :: nat
  slept :: nat
  logged :: "(level \<times> message) list"

definition emit :: "level \<Rightarrow> message \<Rightarrow> world \<Rightarrow> world" where
  "emit l m w = w\<lparr>logged := logged w @ [(l, m)]\<rparr>"

definition sleep :: "nat \<Rightarrow> world \<Rightarrow> world" where
  "sleep d w = w\<lparr>slept := slept w + d\<rparr>"

text \<open>One call of the requests library: the network answers, the call is counted.\<close>

definition http_call :: "network \<Rightarrow> request \<Rightarrow> world \<Rightarrow> world \<times> http_result" where
  "http_call net req w = (w\<lparr>calls := Suc (calls w)\<rparr>, net (calls w) req)"

subsection \<open>send_request_with_retry\<close>

text \<open>The function returns the response object, or the empty dict \<open>{}\<close>.\<close>

datatype reply = Empty_dict | Resp response

text \<open>
  The body of the \<open>try\<close>: the call for the method, then \<open>response.raise_for_status()\<close>.
  No branch matches another method, \<open>response\<close> keeps its value, and on None the
  attribute access raises AttributeError, which the \<open>except\<close> clause does not catch.
\<close>

datatype attempt = Returned response | Caught "response option" | Uncaught error

definition try_request :: "network \<Rightarrow> request \<Rightarrow> response option \<Rightarrow> world \<Rightarrow> world \<times> attempt" where
  "try_request net req response w =
     (if http_method req = ''patch'' \<or> http_method req = ''post'' \<or> http_method req = ''get'' then
        (case http_call net req w of
           (w1, Raises) \<Rightarrow> (w1, Caught response)
         | (w1, Returns r) \<Rightarrow> (w1, if http_error r then Caught (Some r) else Returned r))
      else
        (case response of
           None \<Rightarrow> (w, Uncaught AttributeError)
         | Some r \<Rightarrow> (w, if http_error r then Caught (Some r) else Returned r)))"

function send_request_loop ::
  "network \<Rightarrow> request \<Rightarrow> int \<Rightarrow> response option \<Rightarrow> world \<Rightarrow> world \<times> (error + reply)" where
  "send_request_loop net req retries response w =
     (if 0 < retries then
        (case try_request net req response w of
           (w1, Returned r) \<Rightarrow> (w1, Inr (Resp r))
         | (w1, Uncaught e) \<Rightarrow> (w1, Inl e)
         | (w1, Caught response1) \<Rightarrow>
             (let error_text = (case response1 of None \<Rightarrow> ''No response'' | Some r \<Rightarrow> response_text r);
                  w2 = emit LogError (Request_failed_retrying error_text) w1
              in if 0 < retries - 1 then
                   send_request_loop net req (retries - 1) response1 (sleep RETRY_DELAY w2)
                 else (emit LogError (Retries_exhausted error_text) w2, Inr Empty_dict)))
      else (w, Inr Empty_dict))"
  by pat_completeness auto
termination
  by (relation "measure (\<lambda>(net, req, retries, response, w). nat retries)") auto

declare send_request_loop.simps [simp del]

definition send_request_with_retry ::
  "network \<Rightarrow> request \<Rightarrow> int \<Rightarrow> world \<Rightarrow> world \<times> (error + reply)" where
  "send_request_with_retry net req retries w = send_request_loop net req retries None w"

text \<open>\<open>if response:\<close> on what the function returned: \<open>{}\<close> is false, a response is its \<open>ok\<close>.\<close>

definition reply_truthy :: "reply \<Rightarrow> bool" where
  "reply_truthy r = (case r of Empty_dict \<Rightarrow> False | Resp x \<Rightarrow> \<not> http_error x)"

subsection \<open>validate_database_structure\<close>

text \<open>The \<open>for\<close> loop over \<open>PROPERTY_TYPES.items()\<close>.\<close>

fun check_property_types ::
  "json \<Rightarrow> (string \<times> string) list \<Rightarrow> world \<Rightarrow> world \<times> (error + unit)" where
  "check_property_types database [] w = (w, Inr ())"
| "check_property_types database ((prop_name, prop_type) # rest) w =
     (case bind (getitem database ''properties'') (contains prop_name) of
        Inl e \<Rightarrow> (w, Inl e)
      | Inr True \<Rightarrow>
          (case bind (bind (getitem database ''properties'') (\<lambda>ps. getitem ps prop_name))
                  (\<lambda>v. getitem v ''type'') of
             Inl e \<Rightarrow> (w, Inl e)
           | Inr db_prop_type \<Rightarrow>
               check_property_types database rest
                 (if db_prop_type \<noteq> JStr prop_type
                  then emit LogWarning (Property_type_mismatch prop_name db_prop_type prop_type) w
                  else w))
      | Inr False \<Rightarrow>
          check_property_types database rest (emit LogWarning (Property_missing prop_name) w))"

text \<open>The first three statements of the \<open>try\<close>: the fetch and the parse.\<close>

definition fetch_database :: "network \<Rightarrow> request \<Rightarrow> world \<Rightarrow> world \<times> (error + json)" where
  "fetch_database net req w =
     (case http_call net req w of
        (w1, Raises) \<Rightarrow> (w1, Inl RequestException)
      | (w1, Returns r) \<Rightarrow>
          (w1, if http_error r then Inl RequestException
               else (case json_value r of None \<Rightarrow> Inl ValueError | Some database \<Rightarrow> Inr database)))"

text \<open>The request of the function: its \<open>url\<close> and \<open>headers\<close>.\<close>

definition database_request :: "config \<Rightarrow> request" where
  "database_request cfg =
     \<lparr>http_method = ''get'',
      url = ''https://api.notion.com/v1/databases/'' @ fmt_setting (NOTION_DATABASE_ID cfg),
      headers = [(''Authorization'', ''Bearer '' @ fmt_setting (NOTION_API_KEY cfg)),
                 (''Notion-Version'', ''2022-06-28'')],
      params = [], json_data = None\<rparr>"

definition validate_database_structure :: "config \<Rightarrow> network \<Rightarrow> world \<Rightarrow> world \<times> bool" where
  "validate_database_structure cfg net w =
     (let req = database_request cfg
      in case fetch_database net req w of
           (w1, Inl e) \<Rightarrow> (emit LogError (Validation_failed e) w1, False)
         | (w1, Inr database) \<Rightarrow>
             (case check_property_types database PROPERTY_TYPES w1 of
                (w2, Inl e) \<Rightarrow> (emit LogError (Validation_failed e) w2, False)
              | (w2, Inr _) \<Rightarrow> (emit LogInfo Validation_finished w2, True)))"

text \<open>
  What the walk over the expected property names needs of a parsed reply, whatever the
  types in it are: \<open>database["properties"]\<close> can be read and searched, and each expected
  property that is in it can be subscripted by \<open>"type"\<close>.
\<close>

definition walkable :: "json \<Rightarrow> string list \<Rightarrow> bool" where
  "walkable database names =
     list_all (\<lambda>prop_name.
        case bind (getitem database ''properties'') (contains prop_name) of
          Inl _ \<Rightarrow> False
        | Inr present \<Rightarrow>
            if present then
              (case bind (bind (getitem database ''properties'') (\<lambda>ps. getitem ps prop_name))
                      (\<lambda>v. getitem v ''type'') of
                 Inl _ \<Rightarrow> False
               | Inr _ \<Rightarrow> True)
            else True) names"

subsection \<open>query_achievements_info_from_steam and get_achievements_count\<close>

text \<open>
  The call is \<open>requests.get\<close> itself, with no retry. When it raises, the \<open>except\<close> clause
  reads the local variable \<open>response\<close>, which was never assigned: UnboundLocalError leaves
  the function. When \<open>raise_for_status()\<close> or \<open>json()\<close> raises, \<open>response\<close> is bound, the
  error is logged and the function returns None.
\<close>

definition query_achievements_info_from_steam ::
  "config \<Rightarrow> network \<Rightarrow> game \<Rightarrow> world \<Rightarrow> world \<times> (error + json option)" where
  "query_achievements_info_from_steam cfg net game w =
     (let req = \<lparr>http_method = ''get'',
                 url = ''http://api.steampowered.com/ISteamUserStats/GetPlayerAchievements/v0001/'',
                 headers = [],
                 params = [(''key'', case STEAM_API_KEY cfg of None \<Rightarrow> PNone | Some k \<Rightarrow> PStr k),
                           (''steamid'', case STEAM_USER_ID cfg of None \<Rightarrow> PNone | Some k \<Rightarrow> PStr k),
                           (''appid'', PInt (appid game))],
                 json_data = None\<rparr>;
          w0 = emit LogInfo (Querying_achievements (name game)) w
      in case http_call net req w0 of
           (w1, Raises) \<Rightarrow> (w1, Inl UnboundLocalError)
         | (w1, Returns r) \<Rightarrow>
             (if http_error r then
                (emit LogError (Achievements_query_failed (name game)) w1, Inr None)
              else (case json_value r of
                      None \<Rightarrow> (emit LogError (Achievements_json_failed (name game)) w1, Inr None)
                    | Some v \<Rightarrow> (w1, Inr (Some v)))))"

text \<open>The \<open>for\<close> loop over the achievements array.\<close>

fun count_achievements :: "json list \<Rightarrow> achievements_info \<Rightarrow> error + achievements_info" where
  "count_achievements [] ai = Inr ai"
| "count_achievements (achievement_dict # rest) ai =
     (let ai1 = ai\<lparr>total := total ai + 1\<rparr>
      in case getitem achievement_dict ''achieved'' of
           Inl e \<Rightarrow> Inl e
         | Inr v \<Rightarrow>
             count_achievements rest (if truthy v then ai1\<lparr>achieved := achieved ai1 + 1\<rparr> else ai1))"

text \<open>
  \<open>game_achievements is None\<close> holds when the query returned None after an error, and
  also when the reply parsed to None (a body \<open>null\<close>).
\<close>

definition get_achievements_count ::
  "config \<Rightarrow> network \<Rightarrow> game \<Rightarrow> world \<Rightarrow> world \<times> (error + achievements_info)" where
  "get_achievements_count cfg net game w =
     (case query_achievements_info_from_steam cfg net game w of
        (w1, Inl e) \<Rightarrow> (w1, Inl e)
      | (w1, Inr None) \<Rightarrow>
          (emit LogInfo (No_achievement_info (name game)) w1, Inr \<lparr>total = - 1, achieved = - 1\<rparr>)
      | (w1, Inr (Some game_achievements)) \<Rightarrow>
          if game_achievements = JAtom PNone then
            (emit LogInfo (No_achievement_info (name game)) w1, Inr \<lparr>total = - 1, achieved = - 1\<rparr>)
          else
          (case bind (get_default game_achievements ''playerstats'' (JDict []))
                  (\<lambda>ps. get_default ps ''success'' (JAtom (PBool False))) of
             Inl e \<Rightarrow> (w1, Inl e)
           | Inr success \<Rightarrow>
               if success = JAtom (PBool False) then
                 (emit LogInfo (No_achievement_info (name game)) w1,
                  Inr \<lparr>total = - 1, achieved = - 1\<rparr>)
               else
                 (case bind (getitem game_achievements ''playerstats'') (contains ''achievements'') of
                    Inl e \<Rightarrow> (w1, Inl e)
                  | Inr False \<Rightarrow>
                      (emit LogInfo (No_achievements (name game)) w1,
                       Inr \<lparr>total = - 1, achieved = - 1\<rparr>)
                  | Inr True \<Rightarrow>
                      (case bind (bind (bind (getitem game_achievements ''playerstats'')
                                     (\<lambda>ps. getitem ps ''achievements'')) iterate)
                              (\<lambda>achievements_array.
                                 count_achievements achievements_array \<lparr>total = 0, achieved = 0\<rparr>) of
                         Inl e \<Rightarrow> (w1, Inl e)
                       | Inr ai \<Rightarrow> (emit LogInfo (Achievements_counted (name game)) w1, Inr ai)))))"

subsection \<open>is_record\<close>

text \<open>\<open>x / n\<close> and \<open>x * n\<close> for a float and an int: the int is converted first.\<close>

definition float_truediv_int :: "pyfloat \<Rightarrow> int \<Rightarrow> error + pyfloat" where
  "float_truediv_int x n = bind (float_of_int n) (float_truediv x)"

definition float_mul_int :: "pyfloat \<Rightarrow> int \<Rightarrow> error + pyfloat" where
  "float_mul_int x n = bind (float_of_int n) (\<lambda>y. Inr (float_mul x y))"

text \<open>The variable \<open>playtime\<close> of the function: \<open>round(float(game["playtime_forever"]) / 60, 1)\<close>.\<close>

definition is_record_playtime :: "game \<Rightarrow> error + pyfloat" where
  "is_record_playtime game =
     bind (bind (float_of_int (playtime_forever game)) (\<lambda>f. float_truediv_int f 60))
       (\<lambda>q. Inr (py_round1 q))"


subsection \<open>add_item_to_notion_database\<close>

text \<open>\<open>completion >= 0\<close>, for the int \<open>-1\<close> or the float that \<open>completion\<close> holds.\<close>

definition number_ge_zero :: "atom \<Rightarrow> bool" where
  "number_ge_zero c =
     (case c of PInt n \<Rightarrow> 0 \<le> n | PFloat x \<Rightarrow> float_ge_rat x 0 | _ \<Rightarrow> False)"

text \<open>The \<open>for\<close> loop that normalises the tags.\<close>

fun add_item_tags :: "tag list \<Rightarrow> json list \<Rightarrow> world \<Rightarrow> world \<times> json list" where
  "add_item_tags [] tags w = (w, tags)"
| "add_item_tags (TagDict d # rest) tags w =
     (case map_of d ''name'' of
        Some v \<Rightarrow> add_item_tags rest (tags @ [JDict [(''name'', v)]]) w
      | None \<Rightarrow> add_item_tags rest tags (emit LogWarning (Invalid_tag d) w))"
| "add_item_tags (TagAtom a # rest) tags w =
     add_item_tags rest (tags @ [JDict [(''name'', JStr (py_str a))]]) w"

text \<open>
  The variable \<open>completion\<close> of the function: \<open>-1\<close>, or
  \<open>round(float(achieved_achievements) / float(total_achievements) * 100, 1)\<close>.
\<close>

definition add_item_completion :: "achievements_info \<Rightarrow> error + atom" where
  "add_item_completion achievements_info =
     (let total_achievements = total achievements_info;
          achieved_achievements = achieved achievements_info
      in if 0 < total_achievements then
           bind (float_of_int achieved_achievements) (\<lambda>a.
           bind (float_of_int total_achievements) (\<lambda>t.
           bind (float_truediv a t) (\<lambda>q.
           bind (float_mul_int q 100) (\<lambda>c. Inr (PFloat (py_round1 c))))))
         else Inr (PInt (- 1)))"

text \<open>The function up to the dict \<open>properties\<close> in its final state.\<close>

definition add_item_properties ::
  "platform \<Rightarrow> game \<Rightarrow> achievements_info \<Rightarrow> string \<Rightarrow> steam_store_data \<Rightarrow> world
     \<Rightarrow> world \<times> (error + (string \<times> json) list)" where
  "add_item_properties p game achievements_info review_text steam_store_data w =
     (let w0 = emit LogInfo (Adding_game (name game)) w
      in case bind (bind (float_of_int (playtime_forever game)) (\<lambda>f. float_truediv_int f 60))
                (\<lambda>q. Inr (py_round1 q)) of
           Inl e \<Rightarrow> (w0, Inl e)
         | Inr playtime \<Rightarrow>
         (case local_date p (case rtime_last_played game of None \<Rightarrow> 0 | Some t \<Rightarrow> t) of
           Inl e \<Rightarrow> (w0, Inl e)
         | Inr last_played_time \<Rightarrow>
         (case img_icon_url game of
           None \<Rightarrow> (w0, Inl KeyError)
         | Some icon \<Rightarrow>
         (let store_url = ''https://store.steampowered.com/app/'' @ py_str_int (appid game);
              total_achievements = total achievements_info;
              achieved_achievements = achieved achievements_info
          in case add_item_completion achievements_info of
               Inl e \<Rightarrow> (w0, Inl e)
             | Inr completion \<Rightarrow>
             (let properties =
                    [(PROPERTY_MAPPING TITLE,
                        JDict [(''type'', JStr ''title''),
                               (''title'', JList [JDict [(''type'', JStr ''text''),
                                  (''text'', JDict [(''content'', JStr (name game))])]])]),
                     (PROPERTY_MAPPING PLAYTIME,
                        JDict [(''type'', JStr ''number''), (''number'', JAtom (PFloat playtime))]),
                     (PROPERTY_MAPPING LAST_PLAYED,
                        JDict [(''type'', JStr ''date''),
                               (''date'', JDict [(''start'', JStr last_played_time)])]),
                     (PROPERTY_MAPPING STORE_URL,
                        JDict [(''type'', JStr ''url''), (''url'', JStr store_url)]),
                     (PROPERTY_MAPPING TOTAL_ACHIEVEMENTS,
                        JDict [(''type'', JStr ''number''),
                               (''number'', JAtom (PInt total_achievements))]),
                     (PROPERTY_MAPPING ACHIEVED_ACHIEVEMENTS,
                        JDict [(''type'', JStr ''number''),
                               (''number'', JAtom (PInt achieved_achievements))]),
                     (PROPERTY_MAPPING REVIEW,
                        JDict [(''type'', JStr ''rich_text''),
                               (''rich_text'', JList [JDict [(''type'', JStr ''text''),
                                  (''text'', JDict [(''content'', JStr review_text)])]])]),
                     (PROPERTY_MAPPING INFO,
                        JDict [(''type'', JStr ''rich_text''),
                               (''rich_text'', JList [JDict [(''type'', JStr ''text''),
                                  (''text'', JDict [(''content'',
                                     JStr (case info steam_store_data of None \<Rightarrow> [] | Some s \<Rightarrow> s))])]])])];
                  properties1 =
                    (if property_type (PROPERTY_MAPPING COMPLETION) = ''multi_select'' then
                       (let completion_value =
                              (if number_ge_zero completion
                               then [JDict [(''name'', JStr (py_str completion @ ''%''))]]
                               else [])
                        in AList.update (PROPERTY_MAPPING COMPLETION)
                             (JDict [(''type'', JStr ''multi_select''),
                                     (''multi_select'', JList completion_value)]) properties)
                     else AList.update (PROPERTY_MAPPING COMPLETION)
                            (JDict [(''type'', JStr ''number''), (''number'', JAtom completion)])
                            properties)
              in if property_type (PROPERTY_MAPPING TAGS) = ''checkbox'' then
                   (let has_tags =
                          (0 < length (case tag steam_store_data of None \<Rightarrow> [] | Some ts \<Rightarrow> ts))
                    in (w0, Inr (AList.update (PROPERTY_MAPPING TAGS)
                                   (JDict [(''type'', JStr ''checkbox''),
                                           (''checkbox'', JAtom (PBool has_tags))]) properties1)))
                 else
                   (case add_item_tags (case tag steam_store_data of None \<Rightarrow> [] | Some ts \<Rightarrow> ts)
                           [] w0 of
                      (w1, tags) \<Rightarrow>
                        (w1, Inr (AList.update (PROPERTY_MAPPING TAGS)
                                    (JDict [(''type'', JStr ''multi_select''),
                                            (''multi_select'', JList tags)]) properties1))))))))"

definition notion_headers :: "config \<Rightarrow> (string \<times> string) list" where
  "notion_headers cfg =
     [(''Authorization'', ''Bearer '' @ fmt_setting (NOTION_API_KEY cfg)),
      (''Content-Type'', ''application/json''),
      (''Notion-Version'', ''2022-06-28'')]"

definition external_url :: "string \<Rightarrow> json" where
  "external_url u = JDict [(''type'', JStr ''external''), (''external'', JDict [(''url'', JStr u)])]"


subsection \<open>query_item_from_notion_database\<close>

text \<open>The request of the function: its \<open>url\<close>, \<open>headers\<close> and \<open>data\<close>.\<close>

definition query_request :: "config \<Rightarrow> game \<Rightarrow> request" where
  "query_request cfg game =
     \<lparr>http_method = ''post'',
      url = ''https://api.notion.com/v1/databases/''
        @ fmt_setting (NOTION_DATABASE_ID cfg) @ ''/query'',
      headers = notion_headers cfg, params = [],
      json_data = Some (JDict [(''filter'', JDict [(''property'', JStr (PROPERTY_MAPPING TITLE)),
                    (''title'', JDict [(''equals'', JStr (name game))])])])\<rparr>"

definition query_item_from_notion_database ::
  "config \<Rightarrow> network \<Rightarrow> game \<Rightarrow> world \<Rightarrow> world \<times> json" where
  "query_item_from_notion_database cfg net game w =
     (let w0 = emit LogInfo (Querying_game (name game)) w;
          req = query_request cfg game
      in case send_request_with_retry net req MAX_RETRIES w0 of
           (w1, Inl e) \<Rightarrow> (emit LogError (Query_failed e) w1, JDict [(''results'', JList [])])
         | (w1, Inr Empty_dict) \<Rightarrow> (w1, JDict [(''results'', JList [])])
         | (w1, Inr (Resp r)) \<Rightarrow>
             (if reply_truthy (Resp r) then
                (case json_value r of
                   None \<Rightarrow>
                     (emit LogError (Query_failed ValueError) (emit LogInfo Query_finished w1),
                      JDict [(''results'', JList [])])
                 | Some v \<Rightarrow> (emit LogInfo Query_finished w1, v))
              else (w1, JDict [(''results'', JList [])])))"

subsection \<open>update_item_to_notion_database\<close>

fun update_item_tags :: "tag list \<Rightarrow> json list \<Rightarrow> world \<Rightarrow> world \<times> json list" where
  "update_item_tags [] tags w = (w, tags)"
| "update_item_tags (TagDict d # rest) tags w =
     (case map_of d ''name'' of
        Some v \<Rightarrow> update_item_tags rest (tags @ [JDict [(''name'', v)]]) w
      | None \<Rightarrow> update_item_tags rest tags (emit LogWarning (Invalid_tag d) w))"
| "update_item_tags (TagAtom a # rest) tags w =
     update_item_tags rest (tags @ [JDict [(''name'', JStr (py_str a))]]) w"

text \<open>The variable \<open>completion\<close> of the function.\<close>

definition update_item_completion :: "achievements_info \<Rightarrow> error + atom" where
  "update_item_completion achievements_info =
     (let total_achievements = total achievements_info;
          achieved_achievements = achieved achievements_info
      in if 0 < total_achievements then
           bind (float_of_int achieved_achievements) (\<lambda>a.
           bind (float_of_int total_achievements) (\<lambda>t.
           bind (float_truediv a t) (\<lambda>q.
           bind (float_mul_int q 100) (\<lambda>c. Inr (PFloat (py_round1 c))))))
         else Inr (PInt (- 1)))"

text \<open>
  The function up to the dict \<open>properties\<close> in its final state. Here the line
  \<open>logger.info\<close> comes after the computation of \<open>completion\<close>.
\<close>

definition update_item_properties ::
  "platform \<Rightarrow> game \<Rightarrow> achievements_info \<Rightarrow> string \<Rightarrow> steam_store_data \<Rightarrow> world
     \<Rightarrow> world \<times> (error + (string \<times> json) list)" where
  "update_item_properties p game achievements_info review_text steam_store_data w =
     (case bind (bind (float_of_int (playtime_forever game)) (\<lambda>f. float_truediv_int f 60))
             (\<lambda>q. Inr (py_round1 q)) of
        Inl e \<Rightarrow> (w, Inl e)
      | Inr playtime \<Rightarrow>
      (case local_date p (case rtime_last_played game of None \<Rightarrow> 0 | Some t \<Rightarrow> t) of
        Inl e \<Rightarrow> (w, Inl e)
      | Inr last_played_time \<Rightarrow>
      (case img_icon_url game of
        None \<Rightarrow> (w, Inl KeyError)
      | Some icon \<Rightarrow>
      (let store_url = ''https://store.steampowered.com/app/'' @ py_str_int (appid game);
           total_achievements = total achievements_info;
           achieved_achievements = achieved achievements_info
       in case update_item_completion achievements_info of
            Inl e \<Rightarrow> (w, Inl e)
          | Inr completion \<Rightarrow>
          (let w0 = emit LogInfo (Updating_game (name game)) w;
               properties =
                 [(PROPERTY_MAPPING TITLE,
                     JDict [(''type'', JStr ''title''),
                            (''title'', JList [JDict [(''type'', JStr ''text''),
                               (''text'', JDict [(''content'', JStr (name game))])]])]),
                  (PROPERTY_MAPPING PLAYTIME,
                     JDict [(''type'', JStr ''number''), (''number'', JAtom (PFloat playtime))]),
                  (PROPERTY_MAPPING LAST_PLAYED,
                     JDict [(''type'', JStr ''date''),
                            (''date'', JDict [(''start'', JStr last_played_time)])]),
                  (PROPERTY_MAPPING STORE_URL,
                     JDict [(''type'', JStr ''url''), (''url'', JStr store_url)]),
                  (PROPERTY_MAPPING TOTAL_ACHIEVEMENTS,
                     JDict [(''type'', JStr ''number''),
                            (''number'', JAtom (PInt total_achievements))]),
                  (PROPERTY_MAPPING ACHIEVED_ACHIEVEMENTS,
                     JDict [(''type'', JStr ''number''),
                            (''number'', JAtom (PInt achieved_achievements))]),
                  (PROPERTY_MAPPING REVIEW,
                     JDict [(''type'', JStr ''rich_text''),
                            (''rich_text'', JList [JDict [(''type'', JStr ''text''),
                               (''text'', JDict [(''content'', JStr review_text)])]])]),
                  (PROPERTY_MAPPING INFO,
                     JDict [(''type'', JStr ''rich_text''),
                            (''rich_text'', JList [JDict [(''type'', JStr ''text''),
                               (''text'', JDict [(''content'',
                                  JStr (case info steam_store_data of None \<Rightarrow> [] | Some s \<Rightarrow> s))])]])])];
               properties1 =
                 (if property_type (PROPERTY_MAPPING COMPLETION) = ''multi_select'' then
                    (let completion_value =
                           (if number_ge_zero completion
                            then [JDict [(''name'', JStr (py_str completion @ ''%''))]]
                            else [])
                     in AList.update (PROPERTY_MAPPING COMPLETION)
                          (JDict [(''type'', JStr ''multi_select''),
                                  (''multi_select'', JList completion_value)]) properties)
                  else AList.update (PROPERTY_MAPPING COMPLETION)
                         (JDict [(''type'', JStr ''number''), (''number'', JAtom completion)])
                         properties)
           in if property_type (PROPERTY_MAPPING TAGS) = ''checkbox'' then
                (let has_tags =
                       (0 < length (case tag steam_store_data of None \<Rightarrow> [] | Some ts \<Rightarrow> ts))
                 in (w0, Inr (AList.update (PROPERTY_MAPPING TAGS)
                                (JDict [(''type'', JStr ''checkbox''),
                                        (''checkbox'', JAtom (PBool has_tags))]) properties1)))
              else
                (case update_item_tags (case tag steam_store_data of None \<Rightarrow> [] | Some ts \<Rightarrow> ts)
                        [] w0 of
                   (w1, tags) \<Rightarrow>
                     (w1, Inr (AList.update (PROPERTY_MAPPING TAGS)
                                 (JDict [(''type'', JStr ''multi_select''),
                                         (''multi_select'', JList tags)]) properties1))))))))"

definition update_item_to_notion_database ::
  "config \<Rightarrow> platform \<Rightarrow> network \<Rightarrow> string \<Rightarrow> game \<Rightarrow> achievements_info \<Rightarrow> string
     \<Rightarrow> steam_store_data \<Rightarrow> world \<Rightarrow> world \<times> (error + json)" where
  "update_item_to_notion_database cfg p net page_id game achievements_info review_text
       steam_store_data w =
     (case update_item_properties p game achievements_info review_text steam_store_data w of
        (w1, Inl e) \<Rightarrow> (w1, Inl e)
      | (w1, Inr properties) \<Rightarrow>
          (let icon_url = ''https://media.steampowered.com/steamcommunity/public/images/apps/''
                 @ py_str_int (appid game) @ ''/''
                 @ (case img_icon_url game of None \<Rightarrow> [] | Some icon \<Rightarrow> icon) @ ''.jpg'';
               cover_url = ''https://steamcdn-a.akamaihd.net/steam/apps/''
                 @ py_str_int (appid game) @ ''/header.jpg'';
               data = JDict
                 [(''properties'', JDict properties),
                  (''cover'', external_url cover_url),
                  (''icon'', external_url icon_url)];
               req = \<lparr>http_method = ''patch'', url = ''https://api.notion.com/v1/pages/'' @ page_id,
                      headers = notion_headers cfg, params = [], json_data = Some data\<rparr>
           in case send_request_with_retry net req MAX_RETRIES w1 of
                (w2, Inl e) \<Rightarrow> (emit LogError (Updating_failed e) w2, Inr (JDict []))
              | (w2, Inr Empty_dict) \<Rightarrow> (w2, Inr (JDict []))
              | (w2, Inr (Resp r)) \<Rightarrow>
                  (if reply_truthy (Resp r) then
                     (case json_value r of
                        None \<Rightarrow>
                          (emit LogError (Updating_failed ValueError)
                             (emit LogInfo (Game_updated (name game)) w2), Inr (JDict []))
                      | Some v \<Rightarrow> (emit LogInfo (Game_updated (name game)) w2, Inr v))
                   else (w2, Inr (JDict [])))))"

section \<open>The specification's wording\<close>

subsection \<open>Tag normalisation\<close>

text \<open>
  What the specification says of one tag: a dict with a \<open>name\<close> field passes as
  \<open>{"name": tag["name"]}\<close>, a tag that is no dict is wrapped as \<open>{"name": str(tag)}\<close>, and a
  dict without a \<open>name\<close> field is dropped, with one warning.
\<close>

definition normalized_tag :: "tag \<Rightarrow> json option" where
  "normalized_tag t =
     (case t of
        TagDict d \<Rightarrow>
          (case map_of d ''name'' of Some v \<Rightarrow> Some (JDict [(''name'', v)]) | None \<Rightarrow> None)
      | TagAtom a \<Rightarrow> Some (JDict [(''name'', JStr (py_str a))]))"

definition tag_warning :: "tag \<Rightarrow> (level \<times> message) list" where
  "tag_warning t =
     (case t of
        TagDict d \<Rightarrow>
          (case map_of d ''name'' of Some v \<Rightarrow> [] | None \<Rightarrow> [(LogWarning, Invalid_tag d)])
      | TagAtom a \<Rightarrow> [])"

subsection \<open>The completion percentage\<close>

text \<open>
  \<open>round(achieved / total * 100, 1)\<close> of the specification, on the floats of the two ints:
  \<open>float\<close> of an int raises OverflowError when the int is out of range.
\<close>

definition rounded_percentage :: "int \<Rightarrow> int \<Rightarrow> error + atom" where
  "rounded_percentage a t =
     (case float_of_int a of
        Inl e \<Rightarrow> Inl OverflowError
      | Inr x \<Rightarrow>
          (case float_of_int t of
             Inl e \<Rightarrow> Inl OverflowError
           | Inr y \<Rightarrow> Inr (PFloat (py_round1 (float_mul (ieee_div x y) (Finite 100))))))"

section \<open>Properties of the program\<close>

subsection \<open>Create and update derive the same properties\<close>

lemma tags_loops_agree:
  "snd (add_item_tags ts acc w) = snd (update_item_tags ts acc w')"
proof (induction ts arbitrary: acc w w')
  case Nil
  show ?case by simp
next
  case (Cons t ts)
  show ?case
  proof (cases t)
    case (TagDict d)
    then show ?thesis using Cons.IH by (cases "map_of d ''name''") simp_all
  next
    case (TagAtom a)
    then show ?thesis using Cons.IH by simp
  qed
qed

text \<open>
  Claim C1. For every game, achievements info, review text and store data, the outcome of
  the property derivation of add_item_to_notion_database (the dict \<open>properties\<close>, or the
  exception raised on the way) is the outcome of the property derivation of
  update_item_to_notion_database on the same inputs, whatever the logger held before. So
  an update right after a create writes the properties a fresh create would write.
\<close>

theorem create_update_same_properties:
  "snd (add_item_properties p game achievements_info review_text steam_store_data w) =
   snd (update_item_properties p game achievements_info review_text steam_store_data w')"
proof -
  let ?ts = "case tag steam_store_data of None \<Rightarrow> [] | Some ts \<Rightarrow> ts"
  let ?pt = "bind (bind (float_of_int (playtime_forever game)) (\<lambda>f. float_truediv_int f 60))
                (\<lambda>q. Inr (py_round1 q))"
  let ?ld = "local_date p (case rtime_last_played game of None \<Rightarrow> 0 | Some t \<Rightarrow> t)"
  have c: "update_item_completion achievements_info = add_item_completion achievements_info"
    by (simp add: add_item_completion_def update_item_completion_def)
  have t: "snd (add_item_tags ?ts [] (emit LogInfo (Adding_game (name game)) w)) =
           snd (update_item_tags ?ts [] (emit LogInfo (Updating_game (name game)) w'))"
    by (rule tags_loops_agree)
  show ?thesis
  proof (cases ?pt)
    case Inl
    then show ?thesis by (simp add: add_item_properties_def update_item_properties_def)
  next
    case pt: (Inr playtime)
    show ?thesis
    proof (cases ?ld)
      case Inl
      then show ?thesis using pt by (simp add: add_item_properties_def update_item_properties_def)
    next
      case ld: (Inr last_played_time)
      show ?thesis
      proof (cases "img_icon_url game")
        case None
        then show ?thesis using pt ld
          by (simp add: add_item_properties_def update_item_properties_def)
      next
        case icon: (Some i)
        show ?thesis
        proof (cases "add_item_completion achievements_info")
          case Inl
          then show ?thesis using pt ld icon c
            by (simp add: add_item_properties_def update_item_properties_def)
        next
          case co: (Inr completion)
          show ?thesis using pt ld icon c co t
            by (simp add: add_item_properties_def update_item_properties_def split_beta Let_def)
        qed
      qed
    qed
  qed
qed

subsection \<open>The retry client\<close>

lemma calls_emit [simp]: "calls (emit l m w) = calls w"
  by (simp add: emit_def)

lemma calls_sleep [simp]: "calls (sleep d w) = calls w"
  by (simp add: sleep_def)

lemma try_request_fails:
  assumes m: "http_method req = ''patch'' \<or> http_method req = ''post'' \<or> http_method req = ''get''"
      and f: "net (calls w) req = Raises \<or> (\<exists>r. net (calls w) req = Returns r \<and> http_error r)"
  shows "\<exists>response1. try_request net req response w = (w\<lparr>calls := Suc (calls w)\<rparr>, Caught response1)"
  using m f by (auto simp: try_request_def http_call_def)

lemma send_request_loop_all_fail:
  assumes m: "http_method req = ''patch'' \<or> http_method req = ''post'' \<or> http_method req = ''get''"
      and f: "\<forall>n. net n req = Raises \<or> (\<exists>r. net n req = Returns r \<and> http_error r)"
  shows "snd (send_request_loop net req retries response w) = Inr Empty_dict \<and>
         calls (fst (send_request_loop net req retries response w)) = calls w + nat retries"
proof (induction "nat retries" arbitrary: retries response w)
  case 0
  then have "\<not> 0 < retries" by simp
  then show ?case by (simp add: send_request_loop.simps)
next
  case (Suc k)
  then have pos: "0 < retries" and k: "k = nat (retries - 1)" by simp_all
  obtain response1 where
    t: "try_request net req response w = (w\<lparr>calls := Suc (calls w)\<rparr>, Caught response1)"
    using try_request_fails[where net=net and req=req and w=w and response=response] m f by blast
  show ?case
  proof (cases "0 < retries - 1")
    case True
    let ?w = "sleep RETRY_DELAY (emit LogError (Request_failed_retrying
                (case response1 of None \<Rightarrow> ''No response'' | Some r \<Rightarrow> response_text r))
                (w\<lparr>calls := Suc (calls w)\<rparr>))"
    have step: "send_request_loop net req retries response w =
                send_request_loop net req (retries - 1) response1 ?w"
      using pos True t by (subst send_request_loop.simps) (simp add: Let_def)
    have "calls ?w + nat (retries - 1) = calls w + nat retries" using pos by simp
    then show ?thesis using Suc.hyps(1)[OF k, of response1 ?w] step by simp
  next
    case False
    then have "nat retries = 1" using pos by simp
    then show ?thesis using pos False t
      by (subst (1 2) send_request_loop.simps) (simp add: Let_def)
  qed
qed

text \<open>
  Claim C2. For a request with one of the three methods the function knows, when each
  attempt fails (the call raises, or the response has an error status), with a retry
  budget \<open>retries \<ge> 0\<close> send_request_with_retry makes exactly \<open>retries\<close> calls, no fewer and
  no more, and then returns the empty dict. The witness runs the default budget
  \<open>MAX_RETRIES\<close>: 20 calls.
\<close>

theorem retry_budget_exhausted:
  assumes "http_method req = ''patch'' \<or> http_method req = ''post'' \<or> http_method req = ''get''"
      and "\<forall>n. net n req = Raises \<or> (\<exists>r. net n req = Returns r \<and> http_error r)"
      and "0 \<le> retries"
  shows "snd (send_request_with_retry net req retries w) = Inr Empty_dict \<and>
         int (calls (fst (send_request_with_retry net req retries w))) = int (calls w) + retries"
  using send_request_loop_all_fail[where net=net and req=req and retries=retries and response=None and w=w] assms
  by (simp add: send_request_with_retry_def)

theorem retry_budget_exhausted_witness:
  "snd (send_request_with_retry (\<lambda>n r. Raises)
          \<lparr>http_method = ''post'', url = ''https://api.notion.com/v1/pages'', headers = [],
           params = [], json_data = None\<rparr> MAX_RETRIES \<lparr>calls = 0, slept = 0, logged = []\<rparr>)
     = Inr Empty_dict \<and>
   calls (fst (send_request_with_retry (\<lambda>n r. Raises)
          \<lparr>http_method = ''post'', url = ''https://api.notion.com/v1/pages'', headers = [],
           params = [], json_data = None\<rparr> MAX_RETRIES \<lparr>calls = 0, slept = 0, logged = []\<rparr>))
     = 20"
  using retry_budget_exhausted[of
          "\<lparr>http_method = ''post'', url = ''https://api.notion.com/v1/pages'', headers = [],
            params = [], json_data = None\<rparr>" "\<lambda>n r. Raises" MAX_RETRIES
          "\<lparr>calls = 0, slept = 0, logged = []\<rparr>"]
  by (simp add: MAX_RETRIES_def)

subsection \<open>Facts about the float model\<close>

lemma rhe_le: "x \<le> of_int m \<Longrightarrow> round_half_even x \<le> m"
  unfolding round_half_even_def Let_def
  by (auto simp: floor_le_iff le_floor_iff) (linarith+)?

lemma rhe_ge: "of_int m \<le> x \<Longrightarrow> m \<le> round_half_even x"
  unfolding round_half_even_def Let_def
  by (auto simp: floor_le_iff le_floor_iff) (linarith+)?

lemma rhe_of_int [simp]: "round_half_even (of_int m) = m"
  using rhe_le[of "of_int m" m] rhe_ge[of m "of_int m"] by simp

lemma rhe_bounds: "\<lfloor>x\<rfloor> \<le> round_half_even x" "round_half_even x \<le> \<lfloor>x\<rfloor> + 1"
  unfolding round_half_even_def Let_def by auto

lemma rhe_mono: assumes "x \<le> y" shows "round_half_even x \<le> round_half_even y"
proof (cases "\<lfloor>x\<rfloor> = \<lfloor>y\<rfloor>")
  case True
  then show ?thesis using assms unfolding round_half_even_def Let_def by auto
next
  case False
  with assms have "\<lfloor>x\<rfloor> + 1 \<le> \<lfloor>y\<rfloor>" using floor_mono[OF assms] by linarith
  then show ?thesis using rhe_bounds(1)[of y] rhe_bounds(2)[of x] by linarith
qed

lemma pow_test:
  fixes a b :: int assumes "0 < b"
  shows "(if 0 \<le> d then b * 2 ^ nat d \<le> a else b \<le> a * 2 ^ nat (- d)) \<longleftrightarrow> (2::rat) powi d \<le> of_int a / of_int b"
proof (cases "0 \<le> d")
  case True
  have "(b * 2 ^ nat d \<le> a) \<longleftrightarrow> (of_int (b * 2 ^ nat d) \<le> (of_int a :: rat))" by (simp only: of_int_le_iff)
  also have "\<dots> \<longleftrightarrow> (2::rat) ^ nat d \<le> of_int a / of_int b"
    using assms by (simp add: pos_le_divide_eq mult.commute)
  finally show ?thesis using True by (simp add: power_int_def)
next
  case False
  have b': "(0::rat) < of_int b" using assms by simp
  have p: "(0::rat) < 2 ^ nat (- d)" by simp
  have "(b \<le> a * 2 ^ nat (- d)) \<longleftrightarrow> ((of_int b :: rat) \<le> of_int a * 2 ^ nat (- d))"
    unfolding of_int_le_iff[symmetric, where ?'a = rat] by simp
  also have "\<dots> \<longleftrightarrow> 1 / ((2::rat) ^ nat (- d)) \<le> of_int a / of_int b"
    using b' p by (simp add: pos_le_divide_eq pos_divide_le_eq mult.commute)
  finally show ?thesis using False by (simp add: power_int_def power_one_over)
qed


lemma bitlen_powi:
  assumes "0 < (a::int)"
  shows "(2::rat) powi (bitlen a - 1) \<le> of_int a" "(of_int a :: rat) < 2 powi bitlen a"
proof -
  have la: "1 \<le> bitlen a" using assms by (auto simp: bitlen_alt_def)
  have "2 ^ nat (bitlen a - 1) \<le> a" "a < 2 ^ nat (bitlen a)" using bitlen_bounds[OF assms] by auto
  then have "(of_int (2 ^ nat (bitlen a - 1)) :: rat) \<le> of_int a" "(of_int a :: rat) < of_int (2 ^ nat (bitlen a))"
    by (simp_all only: of_int_le_iff of_int_less_iff)
  then show "(2::rat) powi (bitlen a - 1) \<le> of_int a" "(of_int a :: rat) < 2 powi bitlen a"
    using la by (simp_all add: power_int_def)
qed

lemma ilog2_spec:
  assumes "0 < x"
  shows "2 powi ilog2 x \<le> x \<and> x < 2 powi (ilog2 x + 1)"
proof -
  obtain a b where q: "quotient_of x = (a, b)" by (cases "quotient_of x")
  have b: "0 < b" using quotient_of_denom_pos[OF q] .
  have x: "x = of_int a / of_int b" using quotient_of_div[OF q] .
  have a: "0 < a" using assms b x by (simp add: zero_less_divide_iff)
  have b': "(0::rat) < of_int b" using b by simp
  define d where "d = bitlen a - bitlen b"
  have e1: "(2::rat) powi bitlen a = 2 powi (d + 1) * 2 powi (bitlen b - 1)"
    using power_int_add[of "2::rat" "d + 1" "bitlen b - 1"] by (simp add: d_def)
  have e2: "(2::rat) powi (d - 1) * 2 powi bitlen b = 2 powi (bitlen a - 1)"
    using power_int_add[of "2::rat" "d - 1" "bitlen b"] by (simp add: d_def)
  have up: "x < 2 powi (d + 1)"
  proof -
    have "of_int a < (2::rat) powi bitlen a" using bitlen_powi[OF a] by simp
    also have "\<dots> = 2 powi (d + 1) * 2 powi (bitlen b - 1)" by (rule e1)
    also have "\<dots> \<le> 2 powi (d + 1) * of_int b"
      using bitlen_powi(1)[OF b] by (intro mult_left_mono) auto
    finally show ?thesis unfolding x using b' by (simp only: pos_divide_less_eq)
  qed
  have low: "2 powi (d - 1) \<le> x"
  proof -
    have "2 powi (d - 1) * of_int b \<le> 2 powi (d - 1) * (2::rat) powi bitlen b"
      using bitlen_powi(2)[OF b] by (intro mult_left_mono) auto
    also have "\<dots> = 2 powi (bitlen a - 1)" by (rule e2)
    also have "\<dots> \<le> of_int a" using bitlen_powi[OF a] by simp
    finally show ?thesis unfolding x using b' by (simp only: pos_le_divide_eq)
  qed
  have t: "(if 0 \<le> d then b * 2 ^ nat d \<le> a else b \<le> a * 2 ^ nat (- d)) \<longleftrightarrow> 2 powi d \<le> x"
    unfolding x by (rule pow_test[OF b])
  have il: "ilog2 x = (if 2 powi d \<le> x then d else d - 1)"
    unfolding ilog2_def q prod.case Let_def d_def[symmetric] t ..
  show ?thesis
  proof (cases "2 powi d \<le> x")
    case True
    then show ?thesis using up il by simp
  next
    case False
    then show ?thesis using low il by simp
  qed
qed

lemma ilog2_mono: assumes "0 < x" "x \<le> y" shows "ilog2 x \<le> ilog2 y"
proof (rule ccontr)
  assume "\<not> ilog2 x \<le> ilog2 y"
  then have "ilog2 y + 1 \<le> ilog2 x" by simp
  then have "(2::rat) powi (ilog2 y + 1) \<le> 2 powi ilog2 x" by (intro power_int_increasing) auto
  moreover have "0 < y" using assms by simp
  ultimately show False using ilog2_spec[OF assms(1)] ilog2_spec[of y] assms(2) by linarith
qed



lemma rhe_numeral: "round_half_even (numeral n) = numeral n"
  using rhe_of_int[of "numeral n"] by simp


lemma round_mag_exact:
  assumes x: "x = of_int m * 2 powi j" and m: "0 < m" "m < 2 ^ 53" and j: "- 1074 \<le> j"
  shows "round_mag x = x"
proof -
  have p: "(0::rat) < 2 powi j" by simp
  have xpos: "0 < x" using x m p by simp
  have "(of_int m :: rat) < of_int (2 ^ 53)" using m(2) by (simp only: of_int_less_iff)
  then have "(of_int m :: rat) < 2 ^ 53" by simp
  then have "x < 2 ^ 53 * 2 powi j" unfolding x using p by (rule mult_strict_right_mono)
  also have "\<dots> = 2 powi (53 + j)" using power_int_add[of "2::rat" 53 j] by simp
  finally have up: "x < 2 powi (53 + j)" .
  have "ilog2 x < 53 + j"
  proof (rule ccontr)
    assume "\<not> ilog2 x < 53 + j"
    then have "(2::rat) powi (53 + j) \<le> 2 powi ilog2 x" by (intro power_int_increasing) auto
    then show False using ilog2_spec[OF xpos] up by linarith
  qed
  then have e: "ulp_exp x \<le> j" using j by (simp add: ulp_exp_def)
  define e where "e = ulp_exp x"
  define N where "N = m * 2 ^ nat (j - e)"
  have pe: "(2::rat) powi (j - e) = 2 ^ nat (j - e)" using e by (simp add: e_def power_int_def)
  have split: "(2::rat) powi j = 2 powi (j - e) * 2 powi e"
    using power_int_add[of "2::rat" "j - e" e] by simp
  have xe: "x = of_int N * 2 powi e"
    unfolding x N_def split pe by simp
  have pe0: "(2::rat) powi e \<noteq> 0" by simp
  have "x / 2 powi e = of_int N" unfolding xe using pe0 by simp
  then have "round_half_even (x / 2 powi e) = N" by (simp only: rhe_of_int)
  then have "round_mag x = of_int N * 2 powi e"
    unfolding round_mag_def e_def[symmetric] by simp
  then show ?thesis using xe by simp
qed
lemma ieee_round_exact:
  assumes "x = of_int m * 2 powi j" "0 < m" "m < 2 ^ 53" "- 1074 \<le> j" "x < 2 ^ 1024"
  shows "ieee_round x = Finite x"
proof -
  have "(0::rat) < 2 powi j" by simp
  then have xpos: "0 < x" using assms(1,2) by simp
  have "round_mag x = x" using assms(1-4) by (rule round_mag_exact)
  then show "ieee_round x = Finite x"
    using xpos assms(5) by (simp add: ieee_round_def)
qed

lemma float_of_int_small:
  assumes "0 \<le> n" "n < 2 ^ 53"
  shows "float_of_int n = Inr (Finite (of_int n))"
proof (cases "n = 0")
  case True
  then show ?thesis by (simp add: float_of_int_def ieee_round_def)
next
  case False
  have "(of_int n :: rat) < of_int (2 ^ 53)" using assms by (simp only: of_int_less_iff)
  then have "(of_int n :: rat) < 2 ^ 1024" by simp
  then have "ieee_round (of_int n) = Finite (of_int n)"
    using ieee_round_exact[of "of_int n" n 0] assms False by simp
  then show ?thesis by (simp add: float_of_int_def)
qed


subsection \<open>The query degrades to empty results\<close>

lemma send_request_first_success:
  assumes "net (calls w) req = Returns r" "\<not> http_error r" "0 < retries"
      and "http_method req = ''patch'' \<or> http_method req = ''post'' \<or> http_method req = ''get''"
  shows "send_request_with_retry net req retries w = (w\<lparr>calls := Suc (calls w)\<rparr>, Inr (Resp r))"
  using assms unfolding send_request_with_retry_def
  by (subst send_request_loop.simps) (auto simp: try_request_def http_call_def)

lemma query_request_method [simp]: "http_method (query_request cfg game) = ''post''"
  by (simp add: query_request_def)

text \<open>
  Claim C7. For every game, query_item_from_notion_database returns \<open>{"results": []}\<close>,
  the value that stands for "no page with this title", whenever the query fails: when
  every attempt of the HTTP call fails, when the retry client returns \<open>{}\<close>, when the retry
  client raises, and when the retry client returns a response, after any number of
  failed attempts, whose \<open>json()\<close> raises. The witness runs a network on which every call
  raises, and one on which the first call raises and the second returns a page that is
  no JSON.
\<close>

theorem query_failure_gives_empty_results:
  assumes "(\<forall>n. net n (query_request cfg game) = Raises
                \<or> (\<exists>r. net n (query_request cfg game) = Returns r \<and> http_error r))
           \<or> snd (send_request_with_retry net (query_request cfg game) MAX_RETRIES
                    (emit LogInfo (Querying_game (name game)) w)) = Inr Empty_dict
           \<or> (\<exists>e. snd (send_request_with_retry net (query_request cfg game) MAX_RETRIES
                    (emit LogInfo (Querying_game (name game)) w)) = Inl e)
           \<or> (\<exists>r. snd (send_request_with_retry net (query_request cfg game) MAX_RETRIES
                    (emit LogInfo (Querying_game (name game)) w)) = Inr (Resp r)
                  \<and> json_value r = None)"
  shows "snd (query_item_from_notion_database cfg net game w) = JDict [(''results'', JList [])]"
proof -
  let ?s = "send_request_with_retry net (query_request cfg game) MAX_RETRIES
              (emit LogInfo (Querying_game (name game)) w)"
  have all_fail: "snd ?s = Inr Empty_dict"
    if "\<forall>n. net n (query_request cfg game) = Raises
           \<or> (\<exists>r. net n (query_request cfg game) = Returns r \<and> http_error r)"
    using send_request_loop_all_fail[where net=net and req="query_request cfg game"
            and retries=MAX_RETRIES and response=None
            and w="emit LogInfo (Querying_game (name game)) w"] that
    by (simp add: send_request_with_retry_def)
  from assms all_fail consider
      (empty) "snd ?s = Inr Empty_dict"
    | (raised) e where "snd ?s = Inl e"
    | (unparsed) r where "snd ?s = Inr (Resp r)" "json_value r = None"
    by blast
  then show ?thesis
  proof cases
    case empty
    then show ?thesis
      by (cases ?s) (simp add: query_item_from_notion_database_def Let_def)
  next
    case raised
    then show ?thesis
      by (cases ?s) (simp add: query_item_from_notion_database_def Let_def)
  next
    case unparsed
    then show ?thesis
      by (cases ?s) (simp add: query_item_from_notion_database_def Let_def)
  qed
qed

theorem query_failure_gives_empty_results_witness:
  "snd (query_item_from_notion_database
          \<lparr>STEAM_API_KEY = None, STEAM_USER_ID = None, NOTION_API_KEY = None, NOTION_DATABASE_ID = None\<rparr>
          (\<lambda>n req. Raises)
          \<lparr>appid = 10, name = ''Half-Life'', playtime_forever = 600, rtime_last_played = None,
           img_icon_url = Some ''icon''\<rparr>
          \<lparr>calls = 0, slept = 0, logged = []\<rparr>) = JDict [(''results'', JList [])]
   \<and> snd (query_item_from_notion_database
          \<lparr>STEAM_API_KEY = None, STEAM_USER_ID = None, NOTION_API_KEY = None, NOTION_DATABASE_ID = None\<rparr>
          (\<lambda>n req. if n = 0 then Raises
                    else Returns \<lparr>http_error = False, response_text = ''<html>'', json_value = None\<rparr>)
          \<lparr>appid = 10, name = ''Half-Life'', playtime_forever = 600, rtime_last_played = None,
           img_icon_url = Some ''icon''\<rparr>
          \<lparr>calls = 0, slept = 0, logged = []\<rparr>) = JDict [(''results'', JList [])]"
proof -
  let ?cfg = "\<lparr>STEAM_API_KEY = None, STEAM_USER_ID = None, NOTION_API_KEY = None,
                NOTION_DATABASE_ID = None\<rparr>"
  let ?game = "\<lparr>appid = 10, name = ''Half-Life'', playtime_forever = 600, rtime_last_played = None,
           img_icon_url = Some ''icon''\<rparr>"
  let ?w = "\<lparr>calls = 0, slept = 0, logged = []\<rparr>"
  let ?r = "\<lparr>http_error = False, response_text = ''<html>'', json_value = None\<rparr>"
  let ?net = "\<lambda>(n::nat) (req::request). if n = 0 then Raises else Returns ?r"
  have a: "snd (query_item_from_notion_database ?cfg (\<lambda>n req. Raises) ?game ?w)
             = JDict [(''results'', JList [])]"
    using query_failure_gives_empty_results[of "\<lambda>n req. Raises" ?cfg ?game ?w] by simp
  have "snd (send_request_with_retry ?net (query_request ?cfg ?game) MAX_RETRIES
               (emit LogInfo (Querying_game (name ?game)) ?w)) = Inr (Resp ?r)"
    unfolding send_request_with_retry_def MAX_RETRIES_def
    by (subst send_request_loop.simps, simp add: try_request_def http_call_def emit_def Let_def,
        subst send_request_loop.simps, simp add: try_request_def http_call_def emit_def sleep_def)
  then have b: "snd (query_item_from_notion_database ?cfg ?net ?game ?w)
             = JDict [(''results'', JList [])]"
    using query_failure_gives_empty_results[of ?net ?cfg ?game ?w] by simp
  show ?thesis using a b by (rule conjI)
qed

subsection \<open>The schema validator\<close>

lemma check_property_types_walkable:
  "(snd (check_property_types database pts w) = Inr ()) = walkable database (map fst pts)"
proof (induction pts arbitrary: w)
  case Nil
  show ?case by (simp add: walkable_def)
next
  case (Cons pt pts)
  obtain prop_name prop_type where pt: "pt = (prop_name, prop_type)" by (cases pt)
  have IH: "(snd (check_property_types database pts w') = Inr ()) = walkable database (map fst pts)"
    for w' using Cons.IH by simp
  show ?case
  proof (cases "bind (getitem database ''properties'') (contains prop_name)")
    case (Inl e)
    then show ?thesis using pt by (simp add: walkable_def)
  next
    case present: (Inr b)
    show ?thesis
    proof (cases b)
      case False
      then show ?thesis using pt present IH by (simp add: walkable_def)
    next
      case True
      show ?thesis
      proof (cases "bind (bind (getitem database ''properties'') (\<lambda>ps. getitem ps prop_name))
                      (\<lambda>v. getitem v ''type'')")
        case (Inl e)
        then show ?thesis using pt present True by (simp add: walkable_def)
      next
        case (Inr t)
        then show ?thesis using pt present True IH by (simp add: walkable_def)
      qed
    qed
  qed
qed

text \<open>
  Claim C8, as amended. validate_database_structure returns true exactly when the fetch
  and the parse succeed and the walk over the expected property names raises nothing:
  \<open>database["properties"]\<close> can be read, and each expected property in it can be
  subscripted by \<open>"type"\<close>. The types themselves play no part: a type mismatch or a missing
  property is warned about and never makes the result false, so true does not say that
  the schema matches. In the witness the column of COMPLETION has the type \<open>number\<close> where
  the code expects \<open>multi_select\<close>, nine columns are missing, a warning is logged and the
  result is true.
\<close>

theorem validate_true_iff_walk_succeeds:
  "snd (validate_database_structure cfg net w) =
     (\<exists>database. snd (fetch_database net (database_request cfg) w) = Inr database
        \<and> walkable database (map fst PROPERTY_TYPES))"
proof (cases "fetch_database net (database_request cfg) w")
  case (Pair w1 res)
  show ?thesis
  proof (cases res)
    case (Inl e)
    then show ?thesis using Pair by (simp add: validate_database_structure_def)
  next
    case (Inr database)
    obtain w2 res2 where c: "check_property_types database PROPERTY_TYPES w1 = (w2, res2)"
      by (cases "check_property_types database PROPERTY_TYPES w1")
    have "(res2 = Inr ()) = walkable database (map fst PROPERTY_TYPES)"
      using check_property_types_walkable[of database PROPERTY_TYPES w1] c by simp
    then show ?thesis using Pair Inr c
      by (cases res2) (simp_all add: validate_database_structure_def)
  qed
qed

theorem validate_true_iff_walk_succeeds_witness:
  "snd (validate_database_structure
          \<lparr>STEAM_API_KEY = None, STEAM_USER_ID = None, NOTION_API_KEY = Some ''secret'',
           NOTION_DATABASE_ID = Some ''db''\<rparr>
          (\<lambda>n req. Returns \<lparr>http_error = False, response_text = [],
             json_value = Some (JDict [(''object'', JStr ''database''),
               (''properties'', JDict [(PROPERTY_MAPPING COMPLETION,
                  JDict [(''id'', JStr ''a''), (''type'', JStr ''number'')])])])\<rparr>)
          \<lparr>calls = 0, slept = 0, logged = []\<rparr>)
   \<and> (LogWarning, Property_type_mismatch (PROPERTY_MAPPING COMPLETION) (JStr ''number'') ''multi_select'')
       \<in> set (logged (fst (validate_database_structure
          \<lparr>STEAM_API_KEY = None, STEAM_USER_ID = None, NOTION_API_KEY = Some ''secret'',
           NOTION_DATABASE_ID = Some ''db''\<rparr>
          (\<lambda>n req. Returns \<lparr>http_error = False, response_text = [],
             json_value = Some (JDict [(''object'', JStr ''database''),
               (''properties'', JDict [(PROPERTY_MAPPING COMPLETION,
                  JDict [(''id'', JStr ''a''), (''type'', JStr ''number'')])])])\<rparr>)
          \<lparr>calls = 0, slept = 0, logged = []\<rparr>)))"
proof -
  let ?cfg = "\<lparr>STEAM_API_KEY = None, STEAM_USER_ID = None, NOTION_API_KEY = Some ''secret'',
           NOTION_DATABASE_ID = Some ''db''\<rparr>"
  let ?db = "JDict [(''object'', JStr ''database''),
               (''properties'', JDict [(PROPERTY_MAPPING COMPLETION,
                  JDict [(''id'', JStr ''a''), (''type'', JStr ''number'')])])]"
  let ?net = "\<lambda>(n::nat) (req::request). Returns \<lparr>http_error = False, response_text = [],
             json_value = Some ?db\<rparr>"
  let ?w = "\<lparr>calls = 0, slept = 0, logged = []\<rparr>"
  have f: "fetch_database ?net (database_request ?cfg) ?w = (?w\<lparr>calls := 1\<rparr>, Inr ?db)"
    by (simp add: fetch_database_def http_call_def)
  have o: "walkable ?db (map fst PROPERTY_TYPES)"
    by (simp add: walkable_def PROPERTY_TYPES_def getitem_def contains_def bind_def)
  have "snd (validate_database_structure ?cfg ?net ?w)"
    using validate_true_iff_walk_succeeds[of ?cfg ?net ?w] f o by simp
  moreover have "(LogWarning, Property_type_mismatch (PROPERTY_MAPPING COMPLETION) (JStr ''number'') ''multi_select'')
       \<in> set (logged (fst (validate_database_structure ?cfg ?net ?w)))"
    unfolding validate_database_structure_def Let_def f
    by (simp add: PROPERTY_TYPES_def getitem_def contains_def bind_def emit_def)
  ultimately show ?thesis by blast
qed

text \<open>
  Claim C8 as stated fails: on a reply \<open>{}\<close> with a success status the fetch and the parse
  succeed, \<open>database["properties"]\<close> raises KeyError inside the \<open>try\<close>, and the function
  returns false.
\<close>

theorem validate_false_after_fetch_and_parse:
  "snd (fetch_database
          (\<lambda>n req. Returns \<lparr>http_error = False, response_text = ''{}'', json_value = Some (JDict [])\<rparr>)
          (database_request \<lparr>STEAM_API_KEY = None, STEAM_USER_ID = None,
             NOTION_API_KEY = Some ''secret'', NOTION_DATABASE_ID = Some ''db''\<rparr>)
          \<lparr>calls = 0, slept = 0, logged = []\<rparr>) = Inr (JDict [])
   \<and> \<not> snd (validate_database_structure
          \<lparr>STEAM_API_KEY = None, STEAM_USER_ID = None, NOTION_API_KEY = Some ''secret'',
           NOTION_DATABASE_ID = Some ''db''\<rparr>
          (\<lambda>n req. Returns \<lparr>http_error = False, response_text = ''{}'', json_value = Some (JDict [])\<rparr>)
          \<lparr>calls = 0, slept = 0, logged = []\<rparr>)"
  by (simp add: validate_database_structure_def fetch_database_def http_call_def
        PROPERTY_TYPES_def getitem_def bind_def)

subsection \<open>Achievement counts\<close>

text \<open>
  Claim C9 says that get_achievements_count returns the sentinel \<open>{total: -1, achieved: -1}\<close>
  when the achievements call fails. The code does so when the call returns an error
  status; when the call itself raises (no connection, a timeout), the \<open>except\<close> clause of
  query_achievements_info_from_steam reads the local variable \<open>response\<close>, which was never
  assigned, and UnboundLocalError leaves get_achievements_count: nothing is returned.
  send_request_with_retry sets \<open>response = None\<close> before its \<open>try\<close> and does not have the
  defect.
\<close>

theorem achievements_transport_failure_raises:
  "snd (get_achievements_count cfg (\<lambda>n req. Raises) game w) = Inl UnboundLocalError
   \<and> snd (get_achievements_count cfg
          (\<lambda>n req. Returns \<lparr>http_error = True, response_text = ''Bad Request'', json_value = None\<rparr>)
          game w) = Inr \<lparr>total = - 1, achieved = - 1\<rparr>"
  by (simp add: get_achievements_count_def query_achievements_info_from_steam_def http_call_def
        Let_def)

subsection \<open>Float values of the end-to-end scenario\<close>

lemma ieee_round_10: "ieee_round 10 = Finite 10"
  using ieee_round_exact[of 10 10 0] by simp

lemma ieee_round_50: "ieee_round 50 = Finite 50"
  using ieee_round_exact[of 50 50 0] by simp


lemma ieee_round_half: "ieee_round (1 / 2) = Finite (1 / 2)"
  using ieee_round_exact[of "1 / 2" 1 "- 1"] by simp

lemma float_of_int_numeral_small:
  "numeral n < (2 ^ 53 :: int) \<Longrightarrow> float_of_int (numeral n) = Inr (Finite (numeral n))"
  using float_of_int_small[of "numeral n"] by simp

lemma py_round1_10: "py_round1 (Finite 10) = Finite 10"
  by (simp add: py_round1_def rhe_numeral ieee_round_10)

lemma py_round1_50: "py_round1 (Finite 50) = Finite 50"
  by (simp add: py_round1_def rhe_numeral ieee_round_50)

lemma playtime_600: "is_record_playtime \<lparr>appid = a, name = n, playtime_forever = 600,
    rtime_last_played = r, img_icon_url = i\<rparr> = Inr (Finite 10)"
  by (simp add: is_record_playtime_def bind_def float_of_int_numeral_small float_truediv_int_def
       float_truediv_def ieee_div_def ieee_round_10 py_round1_10)

lemma completion_10_of_20:
  "add_item_completion \<lparr>total = 20, achieved = 10\<rparr> = Inr (PFloat (Finite 50))"
  by (simp add: add_item_completion_def bind_def float_of_int_numeral_small float_truediv_def
       float_mul_int_def float_mul_def ieee_div_def ieee_round_half ieee_round_50 py_round1_50)






subsection \<open>The shape of the derived properties\<close>

lemma property_type_completion: "property_type (PROPERTY_MAPPING COMPLETION) = ''multi_select''"
  by (simp add: property_type_def PROPERTY_TYPES_def)

lemma property_type_tags: "property_type (PROPERTY_MAPPING TAGS) = ''multi_select''"
  by (simp add: property_type_def PROPERTY_TYPES_def)

lemma add_item_properties_returns:
  assumes "add_item_properties p game ai rt sd w = (w', Inr props)"
  shows "\<exists>playtime c. is_record_playtime game = Inr playtime \<and> add_item_completion ai = Inr c
    \<and> map_of props (PROPERTY_MAPPING PLAYTIME)
        = Some (JDict [(''type'', JStr ''number''), (''number'', JAtom (PFloat playtime))])
    \<and> map_of props (PROPERTY_MAPPING COMPLETION)
        = Some (JDict [(''type'', JStr ''multi_select''),
             (''multi_select'', JList (if number_ge_zero c
                then [JDict [(''name'', JStr (py_str c @ ''%''))]] else []))])
    \<and> map_of props (PROPERTY_MAPPING TAGS)
        = Some (JDict [(''type'', JStr ''multi_select''),
             (''multi_select'', JList (snd (add_item_tags
                 (case tag sd of None \<Rightarrow> [] | Some ts \<Rightarrow> ts) []
                 (emit LogInfo (Adding_game (name game)) w))))])"
proof -
  obtain playtime where pt: "is_record_playtime game = Inr playtime"
    using assms by (cases "is_record_playtime game")
      (auto simp add: add_item_properties_def is_record_playtime_def Let_def)
  obtain d where d: "local_date p (case rtime_last_played game of None \<Rightarrow> 0 | Some t \<Rightarrow> t) = Inr d"
    using assms pt
    by (cases "local_date p (case rtime_last_played game of None \<Rightarrow> 0 | Some t \<Rightarrow> t)")
      (auto simp add: add_item_properties_def is_record_playtime_def Let_def)
  obtain icon where i: "img_icon_url game = Some icon"
    using assms pt d
    by (cases "img_icon_url game")
      (auto simp add: add_item_properties_def is_record_playtime_def Let_def)
  obtain c where c: "add_item_completion ai = Inr c"
    using assms pt d i
    by (cases "add_item_completion ai")
      (auto simp add: add_item_properties_def is_record_playtime_def Let_def)
  show ?thesis
    using assms pt d i c
    unfolding add_item_properties_def is_record_playtime_def Let_def property_type_completion
      property_type_tags
    by (auto simp add: split_beta update_conv')
qed

lemma add_item_properties_succeeds:
  assumes "is_record_playtime game = Inr playtime"
    and "local_date p (case rtime_last_played game of None \<Rightarrow> 0 | Some t \<Rightarrow> t) = Inr d"
    and "img_icon_url game = Some icon"
    and "add_item_completion ai = Inr c"
  shows "\<exists>w' props. add_item_properties p game ai rt sd w = (w', Inr props)"
  using assms
  unfolding add_item_properties_def is_record_playtime_def Let_def property_type_completion
    property_type_tags
  by (simp add: split_beta)



lemma update_item_properties_returns:
  assumes "update_item_properties p game ai rt sd w = (w', Inr props)"
  shows "\<exists>playtime c. is_record_playtime game = Inr playtime \<and> update_item_completion ai = Inr c
    \<and> map_of props (PROPERTY_MAPPING PLAYTIME)
        = Some (JDict [(''type'', JStr ''number''), (''number'', JAtom (PFloat playtime))])
    \<and> map_of props (PROPERTY_MAPPING COMPLETION)
        = Some (JDict [(''type'', JStr ''multi_select''),
             (''multi_select'', JList (if number_ge_zero c
                then [JDict [(''name'', JStr (py_str c @ ''%''))]] else []))])
    \<and> map_of props (PROPERTY_MAPPING TAGS)
        = Some (JDict [(''type'', JStr ''multi_select''),
             (''multi_select'', JList (snd (update_item_tags
                 (case tag sd of None \<Rightarrow> [] | Some ts \<Rightarrow> ts) []
                 (emit LogInfo (Updating_game (name game)) w))))])"
proof -
  obtain playtime where pt: "is_record_playtime game = Inr playtime"
    using assms by (cases "is_record_playtime game")
      (auto simp add: update_item_properties_def is_record_playtime_def Let_def)
  obtain d where d: "local_date p (case rtime_last_played game of None \<Rightarrow> 0 | Some t \<Rightarrow> t) = Inr d"
    using assms pt
    by (cases "local_date p (case rtime_last_played game of None \<Rightarrow> 0 | Some t \<Rightarrow> t)")
      (auto simp add: update_item_properties_def is_record_playtime_def Let_def)
  obtain icon where i: "img_icon_url game = Some icon"
    using assms pt d
    by (cases "img_icon_url game")
      (auto simp add: update_item_properties_def is_record_playtime_def Let_def)
  obtain c where c: "update_item_completion ai = Inr c"
    using assms pt d i
    by (cases "update_item_completion ai")
      (auto simp add: update_item_properties_def is_record_playtime_def Let_def)
  show ?thesis
    using assms pt d i c
    unfolding update_item_properties_def is_record_playtime_def Let_def property_type_completion
      property_type_tags
    by (auto simp add: split_beta update_conv')
qed

lemma update_item_properties_succeeds:
  assumes "is_record_playtime game = Inr playtime"
    and "local_date p (case rtime_last_played game of None \<Rightarrow> 0 | Some t \<Rightarrow> t) = Inr d"
    and "img_icon_url game = Some icon"
    and "update_item_completion ai = Inr c"
  shows "\<exists>w' props. update_item_properties p game ai rt sd w = (w', Inr props)"
  using assms
  unfolding update_item_properties_def is_record_playtime_def Let_def property_type_completion
    property_type_tags
  by (simp add: split_beta)

lemma update_completion_eq: "update_item_completion ai = add_item_completion ai"
  by (simp add: update_item_completion_def add_item_completion_def)

subsection \<open>The end-to-end scenario\<close>




subsection \<open>Tag normalisation\<close>

lemma add_item_tags_acc:
  "add_item_tags ts acc w
     = (w\<lparr>logged := logged w @ concat (map tag_warning ts)\<rparr>, acc @ List.map_filter normalized_tag ts)"
proof (induction ts arbitrary: acc w)
  case Nil
  show ?case by (simp add: List.map_filter_simps)
next
  case (Cons t ts)
  show ?case
  proof (cases t)
    case (TagDict d)
    then show ?thesis using Cons
      by (cases "map_of d ''name''")
         (simp_all add: List.map_filter_simps normalized_tag_def tag_warning_def emit_def)
  next
    case (TagAtom a)
    then show ?thesis using Cons
      by (simp add: List.map_filter_simps normalized_tag_def tag_warning_def)
  qed
qed

lemma update_item_tags_acc:
  "update_item_tags ts acc w
     = (w\<lparr>logged := logged w @ concat (map tag_warning ts)\<rparr>, acc @ List.map_filter normalized_tag ts)"
proof (induction ts arbitrary: acc w)
  case Nil
  show ?case by (simp add: List.map_filter_simps)
next
  case (Cons t ts)
  show ?case
  proof (cases t)
    case (TagDict d)
    then show ?thesis using Cons
      by (cases "map_of d ''name''")
         (simp_all add: List.map_filter_simps normalized_tag_def tag_warning_def emit_def)
  next
    case (TagAtom a)
    then show ?thesis using Cons
      by (simp add: List.map_filter_simps normalized_tag_def tag_warning_def)
  qed
qed

text \<open>
  Claim C5. The loop over the tags, in add_item_to_notion_database and in
  update_item_to_notion_database, returns the normalised tags in the order of the input:
  \<open>{"name": tag["name"]}\<close> for a dict with a \<open>name\<close> field, \<open>{"name": str(tag)}\<close> for a tag
  that is no dict, nothing for a dict without a \<open>name\<close> field, which adds one warning to
  the log. The type table sends TAGS to this branch, and the list is the multi-select value
  of the TAGS property of the payload. The input \<open>["Indie", {"name": "RPG"}, {"bad": 1}]\<close>
  gives \<open>[{"name": "Indie"}, {"name": "RPG"}]\<close> and one warning.
\<close>

theorem tags_normalization:
  "add_item_tags ts [] w
     = (w\<lparr>logged := logged w @ concat (map tag_warning ts)\<rparr>, List.map_filter normalized_tag ts)
   \<and> update_item_tags ts [] w
     = (w\<lparr>logged := logged w @ concat (map tag_warning ts)\<rparr>, List.map_filter normalized_tag ts)
   \<and> property_type (PROPERTY_MAPPING TAGS) \<noteq> ''checkbox''
   \<and> (add_item_properties p game ai review_text sd w = (w', Inr props)
        \<longrightarrow> map_of props (PROPERTY_MAPPING TAGS)
            = Some (JDict [(''type'', JStr ''multi_select''),
                           (''multi_select'', JList (List.map_filter normalized_tag
                              (case tag sd of None \<Rightarrow> [] | Some ts \<Rightarrow> ts)))]))
   \<and> (update_item_properties p game ai review_text sd w = (w', Inr props)
        \<longrightarrow> map_of props (PROPERTY_MAPPING TAGS)
            = Some (JDict [(''type'', JStr ''multi_select''),
                           (''multi_select'', JList (List.map_filter normalized_tag
                              (case tag sd of None \<Rightarrow> [] | Some ts \<Rightarrow> ts)))]))
   \<and> add_item_tags [TagAtom (PStr ''Indie''), TagDict [(''name'', JStr ''RPG'')],
                     TagDict [(''bad'', JAtom (PInt 1))]] [] w
     = (emit LogWarning (Invalid_tag [(''bad'', JAtom (PInt 1))]) w,
        [JDict [(''name'', JStr ''Indie'')], JDict [(''name'', JStr ''RPG'')]])"
proof -
  have a: "add_item_tags ts [] w
     = (w\<lparr>logged := logged w @ concat (map tag_warning ts)\<rparr>, List.map_filter normalized_tag ts)"
    for ts w by (simp add: add_item_tags_acc)
  have u: "update_item_tags ts [] w
     = (w\<lparr>logged := logged w @ concat (map tag_warning ts)\<rparr>, List.map_filter normalized_tag ts)"
    for ts w by (simp add: update_item_tags_acc)
  have t: "property_type (PROPERTY_MAPPING TAGS) \<noteq> ''checkbox''"
    unfolding property_type_tags by simp
  have pa: "map_of props (PROPERTY_MAPPING TAGS)
            = Some (JDict [(''type'', JStr ''multi_select''),
                           (''multi_select'', JList (List.map_filter normalized_tag
                              (case tag sd of None \<Rightarrow> [] | Some ts \<Rightarrow> ts)))])"
    if "add_item_properties p game ai review_text sd w = (w', Inr props)"
    using add_item_properties_returns[OF that] by (auto simp add: a)
  have pu: "map_of props (PROPERTY_MAPPING TAGS)
            = Some (JDict [(''type'', JStr ''multi_select''),
                           (''multi_select'', JList (List.map_filter normalized_tag
                              (case tag sd of None \<Rightarrow> [] | Some ts \<Rightarrow> ts)))])"
    if "update_item_properties p game ai review_text sd w = (w', Inr props)"
    using update_item_properties_returns[OF that] by (auto simp add: u)
  have e: "add_item_tags [TagAtom (PStr ''Indie''), TagDict [(''name'', JStr ''RPG'')],
                     TagDict [(''bad'', JAtom (PInt 1))]] [] w
     = (emit LogWarning (Invalid_tag [(''bad'', JAtom (PInt 1))]) w,
        [JDict [(''name'', JStr ''Indie'')], JDict [(''name'', JStr ''RPG'')]])"
    by (simp add: py_str_def)
  show ?thesis using a u t pa pu e by blast
qed


theorem tags_normalization_witness:
  "(\<exists>w' props.
      add_item_properties \<lparr>local_date = (\<lambda>t. Inr ''2023-11-14''), not_record_timestamp = 1577836800\<rparr>
        \<lparr>appid = 10, name = ''Half-Life'', playtime_forever = 600,
         rtime_last_played = Some 1700000000, img_icon_url = Some ''icon''\<rparr>
        \<lparr>total = 20, achieved = 10\<rparr> ''review''
        \<lparr>info = None, tag = Some [TagAtom (PStr ''Indie''), TagDict [(''name'', JStr ''RPG'')],
                                    TagDict [(''bad'', JAtom (PInt 1))]]\<rparr>
        \<lparr>calls = 0, slept = 0, logged = []\<rparr> = (w', Inr props)
      \<and> map_of props (PROPERTY_MAPPING TAGS)
          = Some (JDict [(''type'', JStr ''multi_select''),
               (''multi_select'', JList [JDict [(''name'', JStr ''Indie'')], JDict [(''name'', JStr ''RPG'')]])]))
   \<and> (\<exists>w' props.
      update_item_properties \<lparr>local_date = (\<lambda>t. Inr ''2023-11-14''), not_record_timestamp = 1577836800\<rparr>
        \<lparr>appid = 10, name = ''Half-Life'', playtime_forever = 600,
         rtime_last_played = Some 1700000000, img_icon_url = Some ''icon''\<rparr>
        \<lparr>total = 20, achieved = 10\<rparr> ''review''
        \<lparr>info = None, tag = Some [TagAtom (PStr ''Indie''), TagDict [(''name'', JStr ''RPG'')],
                                    TagDict [(''bad'', JAtom (PInt 1))]]\<rparr>
        \<lparr>calls = 0, slept = 0, logged = []\<rparr> = (w', Inr props)
      \<and> map_of props (PROPERTY_MAPPING TAGS)
          = Some (JDict [(''type'', JStr ''multi_select''),
               (''multi_select'', JList [JDict [(''name'', JStr ''Indie'')], JDict [(''name'', JStr ''RPG'')]])]))"
proof -
  let ?p = "\<lparr>local_date = (\<lambda>t. Inr ''2023-11-14''), not_record_timestamp = 1577836800\<rparr>"
  let ?g = "\<lparr>appid = 10, name = ''Half-Life'', playtime_forever = 600,
         rtime_last_played = Some 1700000000, img_icon_url = Some ''icon''\<rparr>"
  let ?ai = "\<lparr>total = 20, achieved = 10\<rparr>"
  let ?ts = "[TagAtom (PStr ''Indie''), TagDict [(''name'', JStr ''RPG'')],
              TagDict [(''bad'', JAtom (PInt 1))]]"
  let ?sd = "\<lparr>info = None, tag = Some ?ts\<rparr>"
  let ?w = "\<lparr>calls = 0, slept = 0, logged = []\<rparr>"
  have n: "List.map_filter normalized_tag (case tag ?sd of None \<Rightarrow> [] | Some ts \<Rightarrow> ts)
      = [JDict [(''name'', JStr ''Indie'')], JDict [(''name'', JStr ''RPG'')]]"
    by (simp add: List.map_filter_simps normalized_tag_def py_str_def)
  have d: "local_date ?p (case rtime_last_played ?g of None \<Rightarrow> 0 | Some t \<Rightarrow> t) = Inr ''2023-11-14''"
    by simp
  have i: "img_icon_url ?g = Some ''icon''" by simp
  have c: "update_item_completion ?ai = Inr (PFloat (Finite 50))"
    by (simp only: update_completion_eq completion_10_of_20)
  obtain w1 props1 where a: "add_item_properties ?p ?g ?ai ''review'' ?sd ?w = (w1, Inr props1)"
    using add_item_properties_succeeds[OF playtime_600 d i completion_10_of_20] by blast
  obtain w2 props2 where u: "update_item_properties ?p ?g ?ai ''review'' ?sd ?w = (w2, Inr props2)"
    using update_item_properties_succeeds[OF playtime_600 d i c] by blast
  have "map_of props1 (PROPERTY_MAPPING TAGS)
          = Some (JDict [(''type'', JStr ''multi_select''),
               (''multi_select'', JList [JDict [(''name'', JStr ''Indie'')], JDict [(''name'', JStr ''RPG'')]])])"
    using tags_normalization[of ?ts ?w ?p ?g ?ai "''review''" ?sd w1 props1] a
    unfolding n by blast
  moreover have "map_of props2 (PROPERTY_MAPPING TAGS)
          = Some (JDict [(''type'', JStr ''multi_select''),
               (''multi_select'', JList [JDict [(''name'', JStr ''Indie'')], JDict [(''name'', JStr ''RPG'')]])])"
    using tags_normalization[of ?ts ?w ?p ?g ?ai "''review''" ?sd w2 props2] u
    unfolding n by blast
  ultimately show ?thesis using a u by blast
qed

subsection \<open>Monotonicity of rounding\<close>

lemma round_mag_mono:
  assumes "0 < x" "x \<le> y"
  shows "round_mag x \<le> round_mag y"
proof -
  have ypos: "0 < y" using assms by simp
  have le: "ulp_exp x \<le> ulp_exp y" using ilog2_mono[OF assms] by (simp add: ulp_exp_def)
  show ?thesis
  proof (cases "ulp_exp x = ulp_exp y")
    case True
    have "x / 2 powi ulp_exp y \<le> y / 2 powi ulp_exp y"
      using assms(2) by (simp add: divide_right_mono)
    then have "round_half_even (x / 2 powi ulp_exp y) \<le> round_half_even (y / 2 powi ulp_exp y)"
      by (rule rhe_mono)
    then have "(of_int (round_half_even (x / 2 powi ulp_exp y)) :: rat)
                 \<le> of_int (round_half_even (y / 2 powi ulp_exp y))" by (simp only: of_int_le_iff)
    then show ?thesis unfolding round_mag_def True
      by (intro mult_right_mono) simp_all
  next
    case False
    define ex where "ex = ulp_exp x"
    define ey where "ey = ulp_exp y"
    have lt: "ex + 1 \<le> ey" using le False by (simp add: ex_def ey_def)
    then have ey: "ey = ilog2 y - 52" unfolding ey_def ex_def ulp_exp_def by linarith
    have exge: "ilog2 x - 52 \<le> ex" by (simp add: ex_def ulp_exp_def)
    have px: "(0::rat) < 2 powi ex" and py: "(0::rat) < 2 powi ey" by simp_all
    have e53: "(2::rat) powi (ex + 53) = 2 ^ 53 * 2 powi ex"
      using power_int_add[of "2::rat" 53 ex] by (simp add: add.commute)
    have e52: "(2::rat) powi (ey + 52) = 2 ^ 52 * 2 powi ey"
      using power_int_add[of "2::rat" 52 ey] by (simp add: add.commute)
    have "x < 2 powi (ilog2 x + 1)" using ilog2_spec[OF assms(1)] by simp
    also have "\<dots> \<le> 2 powi (ex + 53)" using exge by (intro power_int_increasing) auto
    finally have "x < 2 ^ 53 * 2 powi ex" unfolding e53 .
    then have "x / 2 powi ex \<le> of_int (2 ^ 53)" using px by (simp add: pos_divide_le_eq)
    then have "round_half_even (x / 2 powi ex) \<le> 2 ^ 53" by (rule rhe_le)
    then have "(of_int (round_half_even (x / 2 powi ex)) :: rat) \<le> of_int (2 ^ 53)"
      by (simp only: of_int_le_iff)
    then have "round_mag x \<le> of_int (2 ^ 53) * 2 powi ex"
      unfolding round_mag_def ex_def[symmetric] using px by (intro mult_right_mono) simp_all
    also have "\<dots> = 2 powi (ex + 53)" unfolding e53 by simp
    also have "\<dots> \<le> 2 powi (ey + 52)" using lt by (intro power_int_increasing) auto
    finally have a: "round_mag x \<le> 2 powi (ey + 52)" .
    have "2 powi (ey + 52) \<le> y" using ilog2_spec[OF ypos] ey by simp
    then have "2 ^ 52 * 2 powi ey \<le> y" unfolding e52 .
    then have "of_int (2 ^ 52) \<le> y / 2 powi ey" using py by (simp add: pos_le_divide_eq)
    then have "2 ^ 52 \<le> round_half_even (y / 2 powi ey)" by (rule rhe_ge)
    then have "(of_int (2 ^ 52) :: rat) \<le> of_int (round_half_even (y / 2 powi ey))"
      by (simp only: of_int_le_iff)
    then have "of_int (2 ^ 52) * 2 powi ey \<le> round_mag y"
      unfolding round_mag_def ey_def[symmetric] using py by (intro mult_right_mono) simp_all
    then have b: "2 powi (ey + 52) \<le> round_mag y" unfolding e52 by simp
    show ?thesis using a b by linarith
  qed
qed

lemma round_mag_nonneg:
  assumes "0 < x"
  shows "0 \<le> round_mag x"
proof -
  have "of_int 0 \<le> x / 2 powi ulp_exp x" using assms by simp
  then have "0 \<le> round_half_even (x / 2 powi ulp_exp x)" by (rule rhe_ge)
  then show ?thesis unfolding round_mag_def by simp
qed

lemma round_mag_one: "round_mag 1 = 1"
  using round_mag_exact[of 1 1 0] by simp

lemma ieee_round_bounded:
  assumes "0 < r" "r \<le> B" "round_mag B = B" "B < 2 ^ 1024"
  shows "\<exists>z. ieee_round r = Finite z \<and> 0 \<le> z \<and> z \<le> B"
proof -
  have "round_mag r \<le> B" using round_mag_mono[OF assms(1,2)] assms(3) by simp
  moreover have "0 \<le> round_mag r" using assms(1) by (rule round_mag_nonneg)
  moreover have "\<bar>r\<bar> = r" using assms(1) by simp
  ultimately show ?thesis using assms(1,4)
    by (simp add: ieee_round_def Let_def signed_zero_def)
qed

lemma ieee_round_ge_one:
  assumes "1 \<le> r"
  shows "ieee_round r = PInf \<or> (\<exists>z. ieee_round r = Finite z \<and> 1 \<le> z)"
proof -
  have "round_mag 1 \<le> round_mag r" using assms by (intro round_mag_mono) simp_all
  then have "1 \<le> round_mag r" by (simp add: round_mag_one)
  moreover have "\<bar>r\<bar> = r" using assms by simp
  ultimately show ?thesis using assms
    by (simp add: ieee_round_def Let_def signed_inf_def)
qed

subsection \<open>The completion value\<close>

lemma float_of_int_error: "float_of_int n = Inl e \<Longrightarrow> e = OverflowError"
  by (simp add: float_of_int_def split: pyfloat.splits)

lemma float_of_int_pos:
  assumes "0 < n" "float_of_int n = Inr y"
  shows "\<exists>z. y = Finite z \<and> 1 \<le> z"
proof -
  have "(1::rat) \<le> of_int n" using assms(1) by simp
  from ieee_round_ge_one[OF this] assms(2) show ?thesis
    by (auto simp add: float_of_int_def)
qed

lemma float_of_int_100: "float_of_int 100 = Inr (Finite 100)"
  by (simp add: float_of_int_numeral_small)

lemma add_item_completion_ratio:
  assumes "0 < total ai"
  shows "add_item_completion ai = rounded_percentage (achieved ai) (total ai)"
proof (cases "float_of_int (achieved ai)")
  case (Inl e)
  then show ?thesis using assms
    by (simp add: add_item_completion_def rounded_percentage_def bind_def float_of_int_error)
next
  case x: (Inr x)
  show ?thesis
  proof (cases "float_of_int (total ai)")
    case (Inl e)
    then show ?thesis using assms x
      by (simp add: add_item_completion_def rounded_percentage_def bind_def float_of_int_error)
  next
    case (Inr y)
    then obtain z where "y = Finite z" "1 \<le> z" using float_of_int_pos[OF assms] by blast
    then show ?thesis using assms x Inr
      by (simp add: add_item_completion_def rounded_percentage_def bind_def float_truediv_def
            float_mul_int_def float_of_int_100)
  qed
qed

lemma add_item_completion_sentinel:
  assumes "total ai \<le> 0"
  shows "add_item_completion ai = Inr (PInt (- 1))"
  using assms by (simp add: add_item_completion_def)


text \<open>
  Claim C4. When \<open>total_achievements <= 0\<close>, and so for the sentinel
  \<open>{total: -1, achieved: -1}\<close>, \<open>completion\<close> is the int \<open>-1\<close> in both functions, and the
  COMPLETION property of the payload is the multi-select with no option. When
  \<open>total_achievements > 0\<close>, \<open>completion\<close> is
  \<open>round(float(achieved) / float(total) * 100, 1)\<close>: the division cannot raise, and the
  expression raises only where \<open>float\<close> of one of the two ints overflows.
\<close>

theorem completion_sentinel_and_ratio:
  "(total ai \<le> 0 \<longrightarrow>
      add_item_completion ai = Inr (PInt (- 1))
      \<and> update_item_completion ai = Inr (PInt (- 1))
      \<and> (add_item_properties p game ai review_text sd w = (w', Inr props) \<longrightarrow>
           map_of props (PROPERTY_MAPPING COMPLETION)
             = Some (JDict [(''type'', JStr ''multi_select''), (''multi_select'', JList [])]))
      \<and> (update_item_properties p game ai review_text sd w = (w', Inr props) \<longrightarrow>
           map_of props (PROPERTY_MAPPING COMPLETION)
             = Some (JDict [(''type'', JStr ''multi_select''), (''multi_select'', JList [])])))
   \<and> (0 < total ai \<longrightarrow>
      add_item_completion ai = rounded_percentage (achieved ai) (total ai)
      \<and> update_item_completion ai = rounded_percentage (achieved ai) (total ai))"
proof (intro conjI impI)
  assume t: "total ai \<le> 0"
  show a: "add_item_completion ai = Inr (PInt (- 1))"
    using t by (rule add_item_completion_sentinel)
  show u: "update_item_completion ai = Inr (PInt (- 1))"
    using a by (simp only: update_completion_eq)
  have n: "\<not> number_ge_zero (PInt (- 1))" by (simp add: number_ge_zero_def)
  {
    assume "add_item_properties p game ai review_text sd w = (w', Inr props)"
    from add_item_properties_returns[OF this] a n
    show "map_of props (PROPERTY_MAPPING COMPLETION)
             = Some (JDict [(''type'', JStr ''multi_select''), (''multi_select'', JList [])])"
      by auto
  }
  {
    assume "update_item_properties p game ai review_text sd w = (w', Inr props)"
    from update_item_properties_returns[OF this] u n
    show "map_of props (PROPERTY_MAPPING COMPLETION)
             = Some (JDict [(''type'', JStr ''multi_select''), (''multi_select'', JList [])])"
      by auto
  }
next
  assume t: "0 < total ai"
  show a: "add_item_completion ai = rounded_percentage (achieved ai) (total ai)"
    using t by (rule add_item_completion_ratio)
  show "update_item_completion ai = rounded_percentage (achieved ai) (total ai)"
    using a by (simp only: update_completion_eq)
qed

theorem completion_sentinel_and_ratio_witness:
  "add_item_completion \<lparr>total = - 1, achieved = - 1\<rparr> = Inr (PInt (- 1))
   \<and> update_item_completion \<lparr>total = - 1, achieved = - 1\<rparr> = Inr (PInt (- 1))
   \<and> (\<exists>w' props.
        add_item_properties \<lparr>local_date = (\<lambda>t. Inr ''2023-11-14''), not_record_timestamp = 1577836800\<rparr>
          \<lparr>appid = 10, name = ''Half-Life'', playtime_forever = 600,
           rtime_last_played = Some 1700000000, img_icon_url = Some ''icon''\<rparr>
          \<lparr>total = - 1, achieved = - 1\<rparr> ''review'' \<lparr>info = None, tag = None\<rparr>
          \<lparr>calls = 0, slept = 0, logged = []\<rparr> = (w', Inr props)
        \<and> map_of props (PROPERTY_MAPPING COMPLETION)
            = Some (JDict [(''type'', JStr ''multi_select''), (''multi_select'', JList [])]))
   \<and> (\<exists>w' props.
        update_item_properties \<lparr>local_date = (\<lambda>t. Inr ''2023-11-14''), not_record_timestamp = 1577836800\<rparr>
          \<lparr>appid = 10, name = ''Half-Life'', playtime_forever = 600,
           rtime_last_played = Some 1700000000, img_icon_url = Some ''icon''\<rparr>
          \<lparr>total = - 1, achieved = - 1\<rparr> ''review'' \<lparr>info = None, tag = None\<rparr>
          \<lparr>calls = 0, slept = 0, logged = []\<rparr> = (w', Inr props)
        \<and> map_of props (PROPERTY_MAPPING COMPLETION)
            = Some (JDict [(''type'', JStr ''multi_select''), (''multi_select'', JList [])]))
   \<and> rounded_percentage 10 20 = Inr (PFloat (Finite 50))
   \<and> add_item_completion \<lparr>total = 20, achieved = 10\<rparr> = Inr (PFloat (Finite 50))
   \<and> update_item_completion \<lparr>total = 20, achieved = 10\<rparr> = Inr (PFloat (Finite 50))"
proof -
  let ?p = "\<lparr>local_date = (\<lambda>t. Inr ''2023-11-14''), not_record_timestamp = 1577836800\<rparr>"
  let ?g = "\<lparr>appid = 10, name = ''Half-Life'', playtime_forever = 600,
         rtime_last_played = Some 1700000000, img_icon_url = Some ''icon''\<rparr>"
  let ?s = "\<lparr>total = - 1, achieved = - 1\<rparr>"
  let ?ai = "\<lparr>total = 20, achieved = 10\<rparr>"
  let ?sd = "\<lparr>info = None, tag = None\<rparr>"
  let ?w = "\<lparr>calls = 0, slept = 0, logged = []\<rparr>"
  have d: "local_date ?p (case rtime_last_played ?g of None \<Rightarrow> 0 | Some t \<Rightarrow> t) = Inr ''2023-11-14''"
    by simp
  have i: "img_icon_url ?g = Some ''icon''" by simp
  have ca: "add_item_completion ?s = Inr (PInt (- 1))"
    by (simp add: add_item_completion_def)
  have cu: "update_item_completion ?s = Inr (PInt (- 1))"
    by (simp add: update_item_completion_def)
  obtain w1 props1 where a: "add_item_properties ?p ?g ?s ''review'' ?sd ?w = (w1, Inr props1)"
    using add_item_properties_succeeds[OF playtime_600 d i ca] by blast
  obtain w2 props2 where u: "update_item_properties ?p ?g ?s ''review'' ?sd ?w = (w2, Inr props2)"
    using update_item_properties_succeeds[OF playtime_600 d i cu] by blast
  have s: "total ?s \<le> 0" by simp
  have "map_of props1 (PROPERTY_MAPPING COMPLETION)
            = Some (JDict [(''type'', JStr ''multi_select''), (''multi_select'', JList [])])"
    using completion_sentinel_and_ratio[of ?s ?p ?g "''review''" ?sd ?w w1 props1] s a by blast
  moreover have "map_of props2 (PROPERTY_MAPPING COMPLETION)
            = Some (JDict [(''type'', JStr ''multi_select''), (''multi_select'', JList [])])"
    using completion_sentinel_and_ratio[of ?s ?p ?g "''review''" ?sd ?w w2 props2] s u by blast
  moreover have "add_item_completion ?s = Inr (PInt (- 1)) \<and> update_item_completion ?s = Inr (PInt (- 1))"
    using completion_sentinel_and_ratio[of ?s ?p ?g "''review''" ?sd ?w w1 props1] s by blast
  moreover have t: "0 < total ?ai" by simp
  have r: "add_item_completion ?ai = rounded_percentage (achieved ?ai) (total ?ai)
      \<and> update_item_completion ?ai = rounded_percentage (achieved ?ai) (total ?ai)"
    using completion_sentinel_and_ratio[of ?ai ?p ?g "''review''" ?sd ?w w1 props1] t by blast
  have r50: "rounded_percentage 10 20 = Inr (PFloat (Finite 50))"
    using r completion_10_of_20 by simp
  moreover have "add_item_completion ?ai = Inr (PFloat (Finite 50))
      \<and> update_item_completion ?ai = Inr (PFloat (Finite 50))"
    using r r50 by simp
  ultimately show ?thesis using a u r50 by blast
qed

subsection \<open>The range of the completion percentage\<close>

lemma ieee_round_pos:
  assumes "0 < r"
  shows "ieee_round r = (if 2 ^ 1024 \<le> round_mag r then PInf else Finite (round_mag r))"
proof -
  have "\<bar>r\<bar> = r" using assms by simp
  then show ?thesis using assms
    by (simp add: ieee_round_def Let_def signed_zero_def signed_inf_def)
qed

lemma round_mag_100: "round_mag 100 = 100"
  using round_mag_exact[of 100 100 0] by simp

lemma round_mag_2_1023: "round_mag (2 ^ 1023) = 2 ^ 1023"
  using round_mag_exact[of "2 ^ 1023" 1 1023] by simp

lemma float_of_int_zero: "float_of_int 0 = Inr (Finite 0)"
  by (simp add: float_of_int_def ieee_round_def)

lemma float_of_int_pos_eq:
  assumes "0 < n"
  shows "float_of_int n = (if 2 ^ 1024 \<le> round_mag (of_int n) then Inl OverflowError
                           else Inr (Finite (round_mag (of_int n))))"
proof -
  have "(0::rat) < of_int n" using assms by simp
  then show ?thesis by (simp add: float_of_int_def ieee_round_pos)
qed

lemma float_of_int_mono:
  assumes "0 \<le> a" "a \<le> t" "float_of_int a = Inr x" "float_of_int t = Inr y"
  shows "\<exists>v z. x = Finite v \<and> y = Finite z \<and> 0 \<le> v \<and> v \<le> z"
proof (cases "a = 0")
  case True
  then have x: "x = Finite 0" using assms(3) by (simp add: float_of_int_zero)
  show ?thesis
  proof (cases "t = 0")
    case True
    then have "y = Finite 0" using assms(4) by (simp add: float_of_int_zero)
    then show ?thesis using x by simp
  next
    case False
    then have t: "0 < t" using assms(1,2) by simp
    then have "(0::rat) < of_int t" by simp
    then have "0 \<le> round_mag (of_int t)" by (rule round_mag_nonneg)
    then show ?thesis using x assms(4) float_of_int_pos_eq[OF t]
      by (auto split: if_splits)
  qed
next
  case False
  then have a: "0 < a" using assms(1) by simp
  then have t: "0 < t" using assms(2) by simp
  have a': "(0::rat) < of_int a" using a by simp
  have "(of_int a :: rat) \<le> of_int t" using assms(2) by simp
  then have m: "round_mag (of_int a) \<le> round_mag (of_int t)" using a' by (intro round_mag_mono)
  have "0 \<le> round_mag (of_int a)" using a' by (rule round_mag_nonneg)
  then show ?thesis using m assms(3,4) float_of_int_pos_eq[OF a] float_of_int_pos_eq[OF t]
    by (auto split: if_splits)
qed

lemma float_of_int_in_range:
  assumes "0 \<le> n" "n \<le> 2 ^ 1023"
  shows "\<exists>v. float_of_int n = Inr (Finite v)"
proof (cases "n = 0")
  case True
  then show ?thesis by (simp add: float_of_int_zero)
next
  case False
  then have n: "0 < n" using assms(1) by simp
  then have n': "(0::rat) < of_int n" by simp
  have "(of_int n :: rat) \<le> of_int (2 ^ 1023)" using assms(2) by (simp only: of_int_le_iff)
  then have "(of_int n :: rat) \<le> 2 ^ 1023" by simp
  then have "round_mag (of_int n) \<le> round_mag (2 ^ 1023)" using n' by (intro round_mag_mono)
  then have le: "round_mag (of_int n) \<le> 2 ^ 1023" by (simp only: round_mag_2_1023)
  have "(2::rat) ^ 1023 < 2 ^ 1024" by simp
  with le have "round_mag (of_int n) < 2 ^ 1024" by (rule le_less_trans)
  then show ?thesis using float_of_int_pos_eq[OF n] by simp
qed

lemma ieee_div_unit:
  assumes "0 \<le> v" "v \<le> z" "0 < z"
  shows "\<exists>q. ieee_div (Finite v) (Finite z) = Finite q \<and> 0 \<le> q \<and> q \<le> 1"
proof (cases "v = 0")
  case True
  then show ?thesis using assms by (simp add: ieee_div_def signed_zero_def)
next
  case False
  then have "0 < v / z" using assms by simp
  moreover have "v / z \<le> 1" using assms by simp
  ultimately obtain q where "ieee_round (v / z) = Finite q" "0 \<le> q" "q \<le> 1"
    using ieee_round_bounded[of "v / z" 1] by (auto simp add: round_mag_one)
  then show ?thesis using False assms by (simp add: ieee_div_def)
qed

lemma float_mul_100:
  assumes "0 \<le> q" "q \<le> 1"
  shows "\<exists>c. float_mul (Finite q) (Finite 100) = Finite c \<and> 0 \<le> c \<and> c \<le> 100"
proof (cases "q = 0")
  case True
  then show ?thesis by (simp add: float_mul_def signed_zero_def)
next
  case False
  then have "0 < q * 100" using assms by simp
  moreover have "q * 100 \<le> 100" using assms by simp
  ultimately obtain c where "ieee_round (q * 100) = Finite c" "0 \<le> c" "c \<le> 100"
    using ieee_round_bounded[of "q * 100" 100] by (auto simp add: round_mag_100)
  then show ?thesis using False by (simp add: float_mul_def)
qed

lemma py_round1_range:
  assumes "0 \<le> c" "c \<le> 100"
  shows "\<exists>r. py_round1 (Finite c) = Finite r \<and> 0 \<le> r \<and> r \<le> 100"
proof -
  define k where "k = round_half_even (c * 10)"
  have "of_int 0 \<le> c * 10" using assms by simp
  then have k0: "0 \<le> k" unfolding k_def by (rule rhe_ge)
  have "c * 10 \<le> of_int 1000" using assms by simp
  then have k1: "k \<le> 1000" unfolding k_def by (rule rhe_le)
  show ?thesis
  proof (cases "k = 0")
    case True
    then show ?thesis using assms by (simp add: py_round1_def k_def[symmetric] signed_zero_def)
  next
    case False
    then have "0 < k" using k0 by simp
    then have "(0::rat) < of_int k / 10" by simp
    moreover have "(of_int k :: rat) \<le> of_int 1000" using k1 by (simp only: of_int_le_iff)
    then have "(of_int k :: rat) / 10 \<le> 100" by simp
    ultimately obtain r where "ieee_round (of_int k / 10) = Finite r" "0 \<le> r" "r \<le> 100"
      using ieee_round_bounded[of "of_int k / 10" 100] by (auto simp add: round_mag_100)
    then show ?thesis using False by (simp add: py_round1_def k_def[symmetric])
  qed
qed

lemma rounded_percentage_range:
  assumes "0 \<le> a" "a \<le> t" "0 < t" "rounded_percentage a t = Inr c"
  shows "\<exists>r. c = PFloat (Finite r) \<and> 0 \<le> r \<and> r \<le> 100"
proof -
  obtain x where x: "float_of_int a = Inr x"
    using assms(4) by (cases "float_of_int a") (simp_all add: rounded_percentage_def)
  obtain y where y: "float_of_int t = Inr y"
    using assms(4) x by (cases "float_of_int t") (simp_all add: rounded_percentage_def)
  obtain v z where vz: "x = Finite v" "y = Finite z" "0 \<le> v" "v \<le> z"
    using float_of_int_mono[OF assms(1,2) x y] by blast
  obtain z' where "y = Finite z'" "1 \<le> z'" using float_of_int_pos[OF assms(3) y] by blast
  then have zpos: "0 < z" using vz(2) by simp
  obtain q where q: "ieee_div (Finite v) (Finite z) = Finite q" "0 \<le> q" "q \<le> 1"
    using ieee_div_unit[OF vz(3,4) zpos] by blast
  obtain m where m: "float_mul (Finite q) (Finite 100) = Finite m" "0 \<le> m" "m \<le> 100"
    using float_mul_100[OF q(2,3)] by blast
  obtain r where r: "py_round1 (Finite m) = Finite r" "0 \<le> r" "r \<le> 100"
    using py_round1_range[OF m(2,3)] by blast
  have "rounded_percentage a t = Inr (PFloat (Finite r))"
    using x y vz(1,2) q(1) m(1) r(1) by (simp add: rounded_percentage_def)
  then show ?thesis using assms(4) r(2,3) by simp
qed

lemma rounded_percentage_returns:
  assumes "0 \<le> a" "a \<le> t" "t \<le> 2 ^ 1023"
  shows "\<exists>c. rounded_percentage a t = Inr c"
proof -
  have "a \<le> 2 ^ 1023" using assms(2,3) by simp
  then obtain v where v: "float_of_int a = Inr (Finite v)"
    using float_of_int_in_range[OF assms(1)] by blast
  have "0 \<le> t" using assms(1,2) by simp
  then obtain z where z: "float_of_int t = Inr (Finite z)"
    using float_of_int_in_range[OF _ assms(3)] by blast
  show ?thesis using v z by (simp add: rounded_percentage_def)
qed

subsection \<open>The invariant of the achievements info\<close>

lemma count_achievements_invariant:
  assumes "count_achievements xs ai = Inr ai'" "0 \<le> achieved ai" "achieved ai \<le> total ai"
  shows "0 \<le> achieved ai' \<and> achieved ai' \<le> total ai'"
  using assms
proof (induction xs arbitrary: ai)
  case Nil
  then show ?case by simp
next
  case (Cons x xs)
  obtain v where v: "getitem x ''achieved'' = Inr v"
    using Cons.prems(1) by (cases "getitem x ''achieved''") (simp_all add: Let_def)
  show ?case
  proof (cases "truthy v")
    case True
    then have "count_achievements xs (ai\<lparr>total := total ai + 1, achieved := achieved ai + 1\<rparr>) = Inr ai'"
      using Cons.prems(1) v by (simp add: Let_def)
    then show ?thesis by (rule Cons.IH) (use Cons.prems(2,3) in simp_all)
  next
    case False
    then have "count_achievements xs (ai\<lparr>total := total ai + 1\<rparr>) = Inr ai'"
      using Cons.prems(1) v by (simp add: Let_def)
    then show ?thesis by (rule Cons.IH) (use Cons.prems(2,3) in simp_all)
  qed
qed

lemma get_achievements_count_invariant:
  assumes "get_achievements_count cfg net game w = (w', Inr ai)"
  shows "total ai = - 1 \<and> achieved ai = - 1 \<or> 0 \<le> achieved ai \<and> achieved ai \<le> total ai"
proof -
  obtain w1 res where q: "query_achievements_info_from_steam cfg net game w = (w1, res)"
    by (cases "query_achievements_info_from_steam cfg net game w")
  show ?thesis
  proof (cases res)
    case (Inl e)
    then show ?thesis using assms q by (simp add: get_achievements_count_def)
  next
    case (Inr r)
    show ?thesis
    proof (cases r)
      case None
      then show ?thesis using assms q Inr by (auto simp add: get_achievements_count_def)
    next
      case (Some ga)
      show ?thesis
      proof (cases "ga = JAtom PNone")
      case True
      then show ?thesis using assms q Inr Some by (auto simp add: get_achievements_count_def)
      next
      case nn: False
      let ?s = "bind (get_default ga ''playerstats'' (JDict []))
                  (\<lambda>ps. get_default ps ''success'' (JAtom (PBool False)))"
      let ?c = "bind (getitem ga ''playerstats'') (contains ''achievements'')"
      let ?n = "bind (bind (bind (getitem ga ''playerstats'')
                                     (\<lambda>ps. getitem ps ''achievements'')) iterate)
                              (\<lambda>achievements_array.
                                 count_achievements achievements_array \<lparr>total = 0, achieved = 0\<rparr>)"
      have g: "(w', Inr ai) =
          (case ?s of
             Inl e \<Rightarrow> (w1, Inl e)
           | Inr success \<Rightarrow>
               if success = JAtom (PBool False) then
                 (emit LogInfo (No_achievement_info (name game)) w1,
                  Inr \<lparr>total = - 1, achieved = - 1\<rparr>)
               else
                 (case ?c of
                    Inl e \<Rightarrow> (w1, Inl e)
                  | Inr False \<Rightarrow>
                      (emit LogInfo (No_achievements (name game)) w1,
                       Inr \<lparr>total = - 1, achieved = - 1\<rparr>)
                  | Inr True \<Rightarrow>
                      (case ?n of
                         Inl e \<Rightarrow> (w1, Inl e)
                       | Inr ai \<Rightarrow> (emit LogInfo (Achievements_counted (name game)) w1, Inr ai))))"
        using assms q Inr Some nn by (simp add: get_achievements_count_def)
      show ?thesis
      proof (cases ?s)
        case (Inl e)
        then show ?thesis using g by simp
      next
        case s: (Inr success)
        show ?thesis
        proof (cases "success = JAtom (PBool False)")
          case True
          then show ?thesis using g s by auto
        next
          case ns: False
          show ?thesis
          proof (cases ?c)
            case (Inl e)
            then show ?thesis using g s ns by simp
          next
            case c: (Inr b)
            show ?thesis
            proof (cases b)
              case False
              then show ?thesis using g s ns c by auto
            next
              case True
              show ?thesis
              proof (cases ?n)
                case (Inl e)
                then show ?thesis using g s ns c True by simp
              next
                case n: (Inr ai2)
                then have e: "ai = ai2" using g s ns c True by simp
                obtain xs where "count_achievements xs \<lparr>total = 0, achieved = 0\<rparr> = Inr ai2"
                  using n by (auto simp add: bind_def split: sum.splits)
                from count_achievements_invariant[OF this] e show ?thesis by simp
              qed
            qed
          qed
        qed
      qed
      qed
    qed
  qed
qed


text \<open>
  Claim C10. The achievements info that get_achievements_count returns is the sentinel
  \<open>{total: -1, achieved: -1}\<close> or has \<open>0 <= achieved <= total\<close>. For such an info the
  completion that add_item_to_notion_database derives, whenever it derives one, is the int
  \<open>-1\<close> or a float in \<open>[0, 100]\<close>; and it derives one for every total up to \<open>2^1023\<close>, beyond
  any number of entries that a list can hold (\<open>float\<close> of a larger int can raise
  OverflowError).
\<close>

theorem achievements_invariant:
  assumes "get_achievements_count cfg net game w = (w', Inr ai)"
  shows "(total ai = - 1 \<and> achieved ai = - 1 \<or> 0 \<le> achieved ai \<and> achieved ai \<le> total ai)
    \<and> (\<forall>c. add_item_completion ai = Inr c \<longrightarrow>
           c = PInt (- 1) \<or> (\<exists>r. c = PFloat (Finite r) \<and> 0 \<le> r \<and> r \<le> 100))
    \<and> (total ai \<le> 2 ^ 1023 \<longrightarrow> (\<exists>c. add_item_completion ai = Inr c))"
proof (intro conjI allI impI)
  show inv: "total ai = - 1 \<and> achieved ai = - 1 \<or> 0 \<le> achieved ai \<and> achieved ai \<le> total ai"
    using assms by (rule get_achievements_count_invariant)
  {
    fix c
    assume c: "add_item_completion ai = Inr c"
    show "c = PInt (- 1) \<or> (\<exists>r. c = PFloat (Finite r) \<and> 0 \<le> r \<and> r \<le> 100)"
    proof (cases "0 < total ai")
      case False
      then have "add_item_completion ai = Inr (PInt (- 1))"
        by (intro add_item_completion_sentinel) simp
      then show ?thesis using c by simp
    next
      case True
      then have b: "0 \<le> achieved ai" "achieved ai \<le> total ai" using inv by auto
      have "rounded_percentage (achieved ai) (total ai) = Inr c"
        using c add_item_completion_ratio[OF True] by simp
      from rounded_percentage_range[OF b True this] show ?thesis by blast
    qed
  }
  {
    assume t: "total ai \<le> 2 ^ 1023"
    show "\<exists>c. add_item_completion ai = Inr c"
    proof (cases "0 < total ai")
      case False
      then have "add_item_completion ai = Inr (PInt (- 1))"
        by (intro add_item_completion_sentinel) simp
      then show ?thesis by blast
    next
      case True
      then have b: "0 \<le> achieved ai" "achieved ai \<le> total ai" using inv by auto
      from rounded_percentage_returns[OF b t] show ?thesis
        using add_item_completion_ratio[OF True] by simp
    qed
  }
qed

theorem achievements_invariant_witness:
  "(\<exists>w'. get_achievements_count
        \<lparr>STEAM_API_KEY = None, STEAM_USER_ID = None, NOTION_API_KEY = None, NOTION_DATABASE_ID = None\<rparr>
        (\<lambda>n req. Returns \<lparr>http_error = False, response_text = [],
           json_value = Some (JDict [(''playerstats'',
             JDict [(''success'', JAtom (PBool True)),
                    (''achievements'', JList [JDict [(''achieved'', JAtom (PInt 1))],
                                              JDict [(''achieved'', JAtom (PInt 0))]])])])\<rparr>)
        \<lparr>appid = 10, name = ''Half-Life'', playtime_forever = 600,
         rtime_last_played = Some 1700000000, img_icon_url = Some ''icon''\<rparr>
        \<lparr>calls = 0, slept = 0, logged = []\<rparr> = (w', Inr \<lparr>total = 2, achieved = 1\<rparr>))
   \<and> (\<exists>c. add_item_completion \<lparr>total = 2, achieved = 1\<rparr> = Inr c
         \<and> (c = PInt (- 1) \<or> (\<exists>r. c = PFloat (Finite r) \<and> 0 \<le> r \<and> r \<le> 100)))"
proof -
  let ?cfg = "\<lparr>STEAM_API_KEY = None, STEAM_USER_ID = None, NOTION_API_KEY = None,
               NOTION_DATABASE_ID = None\<rparr>"
  let ?net = "\<lambda>(n::nat) (req::request). Returns \<lparr>http_error = False, response_text = [],
           json_value = Some (JDict [(''playerstats'',
             JDict [(''success'', JAtom (PBool True)),
                    (''achievements'', JList [JDict [(''achieved'', JAtom (PInt 1))],
                                              JDict [(''achieved'', JAtom (PInt 0))]])])])\<rparr>"
  let ?g = "\<lparr>appid = 10, name = ''Half-Life'', playtime_forever = 600,
         rtime_last_played = Some 1700000000, img_icon_url = Some ''icon''\<rparr>"
  let ?w = "\<lparr>calls = 0, slept = 0, logged = []\<rparr>"
  let ?ai = "\<lparr>total = 2, achieved = 1\<rparr>"
  have "snd (get_achievements_count ?cfg ?net ?g ?w) = Inr ?ai"
    by (simp add: get_achievements_count_def query_achievements_info_from_steam_def http_call_def
          bind_def get_default_def getitem_def contains_def iterate_def truthy_def Let_def)
  then obtain w' where g: "get_achievements_count ?cfg ?net ?g ?w = (w', Inr ?ai)"
    by (cases "get_achievements_count ?cfg ?net ?g ?w") simp
  have t: "total ?ai \<le> 2 ^ 1023" by simp
  from achievements_invariant[OF g] t
  obtain c where "add_item_completion ?ai = Inr c"
    "c = PInt (- 1) \<or> (\<exists>r. c = PFloat (Finite r) \<and> 0 \<le> r \<and> r \<le> 100)"
    by blast
  then show ?thesis using g by blast
qed

subsection \<open>The filter is_record\<close>













































end
